theory Spec2Isabelle
  imports
    Main
    "HOL-Library.Char_ord"
    "HOL-Library.List_Lexorder"
    "HOL-Library.Product_Lexorder"
begin

section \<open>Data model of the timecard application\<close>

text \<open>
  The application records of \<^verbatim>\<open>package timecard\<close>. A \<^verbatim>\<open>time.Time\<close> is an
  instant, kept as its (unbounded) offset from the epoch.
\<close>

record User =
  Email :: string
  Name :: string
  Enabled :: bool

record Punch =
  Puncher :: string
  Type :: string
  Time :: int

text \<open>
  Go \<^verbatim>\<open>error\<close> values. \<^verbatim>\<open>errors.New s\<close> is \<open>errorString s\<close>; \<^verbatim>\<open>strconv\<close> reports a
  failed parse as \<^verbatim>\<open>&NumError{Func, Num, Err}\<close>.
\<close>

datatype error = errorString string | NumError string string error

definition errors_New :: "string \<Rightarrow> error" where
  "errors_New s = errorString s"

definition ErrSyntax :: error where
  "ErrSyntax = errors_New ''invalid syntax''"

record appError =
  Error :: error
  Message :: string
  Code :: int

definition StatusOK :: int where "StatusOK = 200"
definition StatusFound :: int where "StatusFound = 302"
definition StatusBadRequest :: int where "StatusBadRequest = 400"
definition StatusInternalServerError :: int where "StatusInternalServerError = 500"

section \<open>The hosting platform\<close>

subsection \<open>Datastore keys and entities\<close>

datatype Key = Key (key_kind: string) (key_stringID: string) (key_intID: int) (key_parent: "Key option")

datatype Entity = PunchEntity Punch | UserEntity User

datatype Property = PBool bool | PTime int | PString string

text \<open>The property a stored struct has under a field name.\<close>

fun property :: "string \<Rightarrow> Entity \<Rightarrow> Property option" where
  "property f (PunchEntity p) =
     (if f = ''Puncher'' then Some (PString (Puncher p))
      else if f = ''Type'' then Some (PString (Type p))
      else if f = ''Time'' then Some (PTime (Time p))
      else None)"
| "property f (UserEntity u) =
     (if f = ''Email'' then Some (PString (Email u))
      else if f = ''Name'' then Some (PString (Name u))
      else if f = ''Enabled'' then Some (PBool (Enabled u))
      else None)"

text \<open>
  The datastore's index order on property values: values of one type are ordered among
  themselves (instants by time, strings bytewise), values of different types by type.
\<close>

fun rank :: "Property \<Rightarrow> nat \<times> int \<times> string" where
  "rank (PBool b) = (1, (if b then 1 else 0), [])"
| "rank (PTime t) = (2, t, [])"
| "rank (PString s) = (3, 0, s)"

record Query =
  q_kind :: string
  q_ancestor :: "Key option"
  q_order :: "string option"
  q_limit :: "nat option"

subsection \<open>Users, logging and the request context\<close>

text \<open>
  \<^verbatim>\<open>appengine/user.User\<close>: the e-mail address and the text \<^verbatim>\<open>String()\<close> prints.
\<close>

record user_User =
  u_Email :: string
  u_String :: string

datatype fmt_arg = ArgString string | ArgError error

text \<open>A log call keeps its format string and its arguments.\<close>

datatype LogLine = Errorf string "fmt_arg list" | Debugf string "fmt_arg list"

text \<open>
  The \<^verbatim>\<open>appengine.Context\<close> of a request, with everything the platform decides for it:
  the signed-in user, the login URL service, the clock, the layout of a formatted instant,
  whether a datastore read, a datastore write, a template execution or a JSON encoding
  fails (and with which message), and the state the request can change: the stored
  entities and the log.
\<close>

record Context =
  user_Current :: "user_User option"
  user_LoginURL :: "string \<Rightarrow> string + string"
  time_Now :: int
  time_Format :: "int \<Rightarrow> string \<Rightarrow> string"
  getall_fails :: "string option"
  put_fails :: "string option"
  execute_fails :: "string option"
  encode_fails :: "string option"
  entities :: "(Key \<times> Entity) list"
  logs :: "LogLine list"

definition Errorf :: "Context \<Rightarrow> string \<Rightarrow> fmt_arg list \<Rightarrow> Context" where
  "Errorf c format args = c\<lparr>logs := logs c @ [LogLine.Errorf format args]\<rparr>"

definition Debugf :: "Context \<Rightarrow> string \<Rightarrow> fmt_arg list \<Rightarrow> Context" where
  "Debugf c format args = c\<lparr>logs := logs c @ [LogLine.Debugf format args]\<rparr>"

subsection \<open>Datastore operations\<close>

definition NewKey :: "Context \<Rightarrow> string \<Rightarrow> string \<Rightarrow> int \<Rightarrow> Key option \<Rightarrow> Key" where
  "NewKey c kind stringID intID parent = Key kind stringID intID parent"

definition NewIncompleteKey :: "Context \<Rightarrow> string \<Rightarrow> Key option \<Rightarrow> Key" where
  "NewIncompleteKey c kind parent = NewKey c kind [] 0 parent"

definition Incomplete :: "Key \<Rightarrow> bool" where
  "Incomplete k = (key_stringID k = [] \<and> key_intID k = 0)"

text \<open>A key has itself and the ancestors of its parent as ancestors.\<close>

fun has_ancestor :: "Key \<Rightarrow> Key \<Rightarrow> bool" where
  "has_ancestor a (Key kind sid iid parent) =
     (a = Key kind sid iid parent \<or> (case parent of None \<Rightarrow> False | Some p \<Rightarrow> has_ancestor a p))"

text \<open>The identifier the store generates: one that no stored key has.\<close>

definition fresh_id :: "(Key \<times> Entity) list \<Rightarrow> int" where
  "fresh_id es = fold max (map (key_intID \<circ> fst) es) 0 + 1"

text \<open>
  \<^verbatim>\<open>datastore.Put\<close>: completes an incomplete key with a generated identifier and stores
  the entity under it, replacing what the key held. A failed write stores nothing.
\<close>

definition datastore_Put :: "Context \<Rightarrow> Key \<Rightarrow> Entity \<Rightarrow> (error + Key) \<times> Context" where
  "datastore_Put c key e =
     (case put_fails c of
        Some msg \<Rightarrow> (Inl (errors_New msg), c)
      | None \<Rightarrow>
          (let k = (if Incomplete key
                    then Key (key_kind key) (key_stringID key) (fresh_id (entities c)) (key_parent key)
                    else key)
           in (Inr k, c\<lparr>entities := filter (\<lambda>ke. fst ke \<noteq> k) (entities c) @ [(k, e)]\<rparr>)))"

definition NewQuery :: "string \<Rightarrow> Query" where
  "NewQuery kind = \<lparr>q_kind = kind, q_ancestor = None, q_order = None, q_limit = None\<rparr>"

definition Ancestor :: "Query \<Rightarrow> Key \<Rightarrow> Query" where
  "Ancestor q k = q\<lparr>q_ancestor := Some k\<rparr>"

definition Order :: "Query \<Rightarrow> string \<Rightarrow> Query" where
  "Order q f = q\<lparr>q_order := Some f\<rparr>"

definition Limit :: "Query \<Rightarrow> nat \<Rightarrow> Query" where
  "Limit q n = q\<lparr>q_limit := Some n\<rparr>"

text \<open>
  The entities a query selects: those of its kind below its ancestor, in the order of
  the named property (entities without the property are not indexed under it, entities
  with equal values stay in storage order), cut at the limit.
\<close>

definition selected :: "Query \<Rightarrow> (Key \<times> Entity) list \<Rightarrow> (Key \<times> Entity) list" where
  "selected q es =
     filter (\<lambda>ke. key_kind (fst ke) = q_kind q \<and>
                  (case q_ancestor q of None \<Rightarrow> True | Some a \<Rightarrow> has_ancestor a (fst ke))) es"

definition index_key :: "string \<Rightarrow> Key \<times> Entity \<Rightarrow> nat \<times> int \<times> string" where
  "index_key f ke = (case property f (snd ke) of None \<Rightarrow> (0, 0, []) | Some v \<Rightarrow> rank v)"

definition ordered :: "Query \<Rightarrow> (Key \<times> Entity) list \<Rightarrow> (Key \<times> Entity) list" where
  "ordered q es =
     (case q_order q of
        None \<Rightarrow> es
      | Some f \<Rightarrow> sort_key (index_key f) (filter (\<lambda>ke. property f (snd ke) \<noteq> None) es))"

definition limited :: "Query \<Rightarrow> (Key \<times> Entity) list \<Rightarrow> (Key \<times> Entity) list" where
  "limited q es = (case q_limit q of None \<Rightarrow> es | Some n \<Rightarrow> take n es)"

definition run_query :: "Query \<Rightarrow> (Key \<times> Entity) list \<Rightarrow> (Key \<times> Entity) list" where
  "run_query q es = limited q (ordered q (selected q es))"

text \<open>
  \<^verbatim>\<open>q.GetAll(c, &dst)\<close> for a slice of punches and for a slice of users: the structs
  loaded from the selected entities are appended to the slice. An entity that is not of
  the slice's struct type is a field mismatch, and a failed read is an error.
\<close>

fun loadPunch :: "Entity \<Rightarrow> Punch option" where
  "loadPunch (PunchEntity p) = Some p"
| "loadPunch (UserEntity u) = None"

fun loadUser :: "Entity \<Rightarrow> User option" where
  "loadUser (UserEntity u) = Some u"
| "loadUser (PunchEntity p) = None"

fun load_all :: "(Entity \<Rightarrow> 'a option) \<Rightarrow> (Key \<times> Entity) list \<Rightarrow> 'a list option" where
  "load_all ld [] = Some []"
| "load_all ld (ke # kes) =
     (case ld (snd ke) of
        None \<Rightarrow> None
      | Some x \<Rightarrow> (case load_all ld kes of None \<Rightarrow> None | Some xs \<Rightarrow> Some (x # xs)))"

definition ErrFieldMismatch :: error where
  "ErrFieldMismatch = errors_New ''datastore: cannot load field''"

definition GetAll :: "(Entity \<Rightarrow> 'a option) \<Rightarrow> Query \<Rightarrow> Context \<Rightarrow> 'a list \<Rightarrow> error + 'a list" where
  "GetAll ld q c dst =
     (case getall_fails c of
        Some msg \<Rightarrow> Inl (errors_New msg)
      | None \<Rightarrow>
          (case load_all ld (run_query q (entities c)) of
             None \<Rightarrow> Inl ErrFieldMismatch
           | Some xs \<Rightarrow> Inr (dst @ xs)))"

subsection \<open>Requests and responses\<close>

record URL =
  Path :: string
  RawQuery :: string

definition URL_String :: "URL \<Rightarrow> string" where
  "URL_String u = Path u @ (if RawQuery u = [] then [] else ''?'' @ RawQuery u)"

record Request =
  Method :: string
  Url :: URL
  Form :: "(string \<times> string list) list"

text \<open>\<^verbatim>\<open>r.FormValue(key)\<close>: the first value of the field, the empty string without one.\<close>

definition FormValue :: "Request \<Rightarrow> string \<Rightarrow> string" where
  "FormValue r key =
     (case map_of (Form r) key of
        None \<Rightarrow> []
      | Some vs \<Rightarrow> (case vs of [] \<Rightarrow> [] | v # _ \<Rightarrow> v))"

text \<open>
  The values handed to the JSON encoder, and the JSON documents it writes: a nil value and
  a nil slice are written as \<^verbatim>\<open>null\<close>, a slice as an array, a map as an object with its
  keys sorted.
\<close>

datatype jsonData =
    GoNil
  | GoBool bool
  | GoString string
  | GoNilSlice
  | GoSlice "jsonData list"
  | GoMap "(string \<times> jsonData) list"

datatype Json =
    JNull
  | JBool bool
  | JString string
  | JArray "Json list"
  | JObject "(string \<times> Json) list"

fun marshal :: "jsonData \<Rightarrow> Json" where
  "marshal GoNil = JNull"
| "marshal (GoBool b) = JBool b"
| "marshal (GoString s) = JString s"
| "marshal GoNilSlice = JNull"
| "marshal (GoSlice vs) = JArray (map marshal vs)"
| "marshal (GoMap kvs) = JObject (sort_key fst (map (\<lambda>kv. (fst kv, marshal (snd kv))) kvs))"

text \<open>\<^verbatim>\<open>append(s, v)\<close> on a slice value: appending to the nil slice allocates.\<close>

fun append_slice :: "jsonData \<Rightarrow> jsonData \<Rightarrow> jsonData" where
  "append_slice (GoSlice vs) v = GoSlice (vs @ [v])"
| "append_slice s v = GoSlice [v]"

text \<open>
  What is written to a response body: literal text, text escaped by the HTML template
  engine, or one JSON document followed by a newline (the output of \<^verbatim>\<open>Encode\<close>).
\<close>

datatype Chunk = Text string | Escaped string | JsonLine Json

text \<open>
  An \<^verbatim>\<open>http.ResponseWriter\<close>: the header map the handler edits, and what has gone to the
  client: whether the status line was written, the status, the headers sent with it, and the
  body. \<^verbatim>\<open>WriteHeader\<close> counts once; a first \<^verbatim>\<open>Write\<close> without it sends status 200.
\<close>

record ResponseWriter =
  header :: "string \<rightharpoonup> string list"
  wroteHeader :: bool
  status :: int
  sentHeader :: "string \<rightharpoonup> string list"
  body :: "Chunk list"

definition newResponseWriter :: ResponseWriter where
  "newResponseWriter =
     \<lparr>header = Map.empty, wroteHeader = False, status = 0, sentHeader = Map.empty, body = []\<rparr>"

definition Header_Set :: "ResponseWriter \<Rightarrow> string \<Rightarrow> string \<Rightarrow> ResponseWriter" where
  "Header_Set w k v = w\<lparr>header := (header w)(k \<mapsto> [v])\<rparr>"

definition Header_Add :: "ResponseWriter \<Rightarrow> string \<Rightarrow> string \<Rightarrow> ResponseWriter" where
  "Header_Add w k v =
     w\<lparr>header := (header w)(k \<mapsto> (case header w k of None \<Rightarrow> [] | Some vs \<Rightarrow> vs) @ [v])\<rparr>"

definition WriteHeader :: "ResponseWriter \<Rightarrow> int \<Rightarrow> ResponseWriter" where
  "WriteHeader w code =
     (if wroteHeader w then w
      else w\<lparr>wroteHeader := True, status := code, sentHeader := header w\<rparr>)"

definition Write :: "ResponseWriter \<Rightarrow> Chunk list \<Rightarrow> ResponseWriter" where
  "Write w data =
     (let w' = (if wroteHeader w then w else WriteHeader w StatusOK)
      in w'\<lparr>body := body w' @ data\<rparr>)"

text \<open>\<^verbatim>\<open>http.Error\<close>: a plain-text reply of the given status, the message and a newline.\<close>

definition http_Error :: "ResponseWriter \<Rightarrow> string \<Rightarrow> int \<Rightarrow> ResponseWriter" where
  "http_Error w msg code =
     (let w1 = Header_Set w ''Content-Type'' ''text/plain; charset=utf-8'';
          w2 = WriteHeader w1 code
      in Write w2 [Text (msg @ ''\<newline>'')])"

text \<open>
  What the client receives once the handler has returned: a handler that wrote nothing
  gets status 200 and an empty body.
\<close>

record Response =
  resp_status :: int
  resp_header :: "string \<rightharpoonup> string list"
  resp_body :: "Chunk list"

definition finishRequest :: "ResponseWriter \<Rightarrow> Response" where
  "finishRequest w =
     (let w' = (if wroteHeader w then w else WriteHeader w StatusOK)
      in \<lparr>resp_status = status w', resp_header = sentHeader w', resp_body = body w'\<rparr>)"

section \<open>The application\<close>

text \<open>
  A handler gets the request context, the response writer and the request, and returns
  what it left of the writer and the context. \<open>None\<close> is a panic (a nil dereference).
\<close>

type_synonym appHandler =
  "Context \<Rightarrow> ResponseWriter \<Rightarrow> Request \<Rightarrow> (appError option \<times> ResponseWriter \<times> Context) option"

type_synonym apiHandler =
  "Context \<Rightarrow> ResponseWriter \<Rightarrow> Request \<Rightarrow>
     ((jsonData \<times> appError option) \<times> ResponseWriter \<times> Context) option"

definition userKey :: "Context \<Rightarrow> Key" where
  "userKey c = NewKey c ''User'' ''default_user'' 0 None"

definition punchKey :: "Context \<Rightarrow> Key" where
  "punchKey c = NewKey c ''Punch'' ''default_punch'' 0 None"

definition redirect :: "ResponseWriter \<Rightarrow> string \<Rightarrow> ResponseWriter" where
  "redirect w url = WriteHeader (Header_Set w ''Location'' url) StatusFound"

definition handleAppError :: "Context \<Rightarrow> ResponseWriter \<Rightarrow> appError \<Rightarrow> ResponseWriter \<times> Context" where
  "handleAppError c w e =
     (let c1 = Errorf c ''%v'' [ArgError (Error e)]
      in (http_Error w (Message e) (Code e), c1))"

text \<open>
  \<^verbatim>\<open>appHandler.ServeHTTP\<close>. The context \<open>c\<close> is \<^verbatim>\<open>appengine.NewContext(r)\<close>; the login
  service reports a failure by its message.
\<close>

definition appHandler_ServeHTTP ::
    "appHandler \<Rightarrow> Context \<Rightarrow> ResponseWriter \<Rightarrow> Request \<Rightarrow> (ResponseWriter \<times> Context) option" where
  "appHandler_ServeHTTP fn c w r =
     (case user_Current c of
        None \<Rightarrow>
          (case user_LoginURL c (URL_String (Url r)) of
             Inl err \<Rightarrow>
               (let c1 = Errorf c ''%v'' [ArgString err]
                in Some (http_Error w err StatusInternalServerError, c1))
           | Inr url \<Rightarrow> Some (redirect w url, c))
      | Some u \<Rightarrow>
          (case fn c w r of
             None \<Rightarrow> None
           | Some (None, w', c') \<Rightarrow> Some (w', c')
           | Some (Some e, w', c') \<Rightarrow> Some (handleAppError c' w' e)))"

text \<open>
  \<^verbatim>\<open>appHandler.ServeHTTP\<close> of \<^verbatim>\<open>package hello\<close> (app.go): as above, but a failure of the
  login service is not logged.
\<close>

definition hello_appHandler_ServeHTTP ::
    "appHandler \<Rightarrow> Context \<Rightarrow> ResponseWriter \<Rightarrow> Request \<Rightarrow> (ResponseWriter \<times> Context) option" where
  "hello_appHandler_ServeHTTP fn c w r =
     (case user_Current c of
        None \<Rightarrow>
          (case user_LoginURL c (URL_String (Url r)) of
             Inl err \<Rightarrow> Some (http_Error w err StatusInternalServerError, c)
           | Inr url \<Rightarrow> Some (redirect w url, c))
      | Some u \<Rightarrow>
          (case fn c w r of
             None \<Rightarrow> None
           | Some (None, w', c') \<Rightarrow> Some (w', c')
           | Some (Some e, w', c') \<Rightarrow>
               (let c1 = Errorf c' ''%v'' [ArgError (Error e)]
                in Some (http_Error w' (Message e) (Code e), c1))))"

text \<open>
  \<^verbatim>\<open>writeJsonResponse\<close>. The encoder fails when the context says so, and then writes
  nothing.
\<close>

definition writeJsonResponse :: "Context \<Rightarrow> ResponseWriter \<Rightarrow> jsonData \<Rightarrow> string option \<times> ResponseWriter" where
  "writeJsonResponse c w jsonData =
     (let w1 = Header_Add w ''Content-Type'' ''application/json''
      in case encode_fails c of
           Some msg \<Rightarrow> (Some msg, w1)
         | None \<Rightarrow> (None, Write w1 [JsonLine (marshal jsonData)]))"

text \<open>
  \<^verbatim>\<open>apiHandler.ServeHTTP\<close>. After \<^verbatim>\<open>handleAppError\<close> there is no \<^verbatim>\<open>return\<close>: the JSON
  response is written in either case.
\<close>

definition apiHandler_ServeHTTP ::
    "apiHandler \<Rightarrow> Context \<Rightarrow> ResponseWriter \<Rightarrow> Request \<Rightarrow> (ResponseWriter \<times> Context) option" where
  "apiHandler_ServeHTTP fn c w r =
     (case user_Current c of
        None \<Rightarrow>
          (let err = ''login needed'';
               c1 = Errorf c ''%v'' [ArgString err]
           in Some (http_Error w err StatusInternalServerError, c1))
      | Some u \<Rightarrow>
          (case fn c w r of
             None \<Rightarrow> None
           | Some ((jsonData, appErr), w1, c1) \<Rightarrow>
               (let (w2, c2) = (case appErr of
                                  None \<Rightarrow> (w1, c1)
                                | Some e \<Rightarrow> handleAppError c1 w1 e)
                in case writeJsonResponse c2 w2 jsonData of
                     (None, w3) \<Rightarrow> Some (w3, c2)
                   | (Some err, w3) \<Rightarrow>
                       (let c3 = Errorf c2 ''%v'' [ArgString err]
                        in Some (http_Error w3 err StatusInternalServerError, c3)))))"

subsection \<open>The root page\<close>

definition formatDateTime :: "Context \<Rightarrow> int \<Rightarrow> string" where
  "formatDateTime c t = time_Format c t ''2006-01-02 15:04''"

text \<open>One list item of the page: the body of the template's \<^verbatim>\<open>range\<close>.\<close>

definition punchItem :: "Context \<Rightarrow> Punch \<Rightarrow> Chunk list" where
  "punchItem c p =
     [Text ''\<newline>      <li>'', Escaped (Type p), Text '' '',
      Escaped (formatDateTime c (Time p)), Text ''</li>\<newline>    '']"

definition rootTemplate :: "Context \<Rightarrow> user_User option \<Rightarrow> Punch list \<Rightarrow> Chunk list" where
  \<open>rootTemplate c u punches =
     [Text (''\<newline><html>\<newline>  <head>\<newline>    <title>Timecard</title>\<newline>  </head>\<newline>''
            @ ''  <body>\<newline>    <div>Hello, ''),
      Escaped (case u of None \<Rightarrow> ''<nil>'' | Some x \<Rightarrow> u_String x),
      Text ''!</div>\<newline>    <ul>\<newline>    '']
     @ concat (map (punchItem c) punches)
     @ [Text (''\<newline>    </ul>\<newline>''
            @ ''    <form action="/my/arrivals" method="post">\<newline>''
            @ ''      <input type="submit" value="Arrive">\<newline>''
            @ ''    </form>\<newline>''
            @ ''    <form action="/my/leaves" method="post">\<newline>''
            @ ''      <input type="submit" value="Leave">\<newline>''
            @ ''    </form>\<newline>  </body>\<newline></html>\<newline>'')]\<close>

text \<open>
  \<^verbatim>\<open>rootTemplate.Execute\<close>: fails when the context says so, before any output.
\<close>

definition rootTemplate_Execute ::
    "Context \<Rightarrow> ResponseWriter \<Rightarrow> user_User option \<Rightarrow> Punch list \<Rightarrow> string option \<times> ResponseWriter" where
  "rootTemplate_Execute c w u punches =
     (case execute_fails c of
        Some msg \<Rightarrow> (Some msg, w)
      | None \<Rightarrow> (None, Write w (rootTemplate c u punches)))"

definition rootQuery :: "Context \<Rightarrow> Query" where
  "rootQuery c = Limit (Order (Ancestor (NewQuery ''Punch'') (punchKey c)) ''Time'') 10"

definition rootHandler :: appHandler where
  "rootHandler c w r =
     (let u = user_Current c;
          q = rootQuery c;
          punches = []
      in case GetAll loadPunch q c punches of
           Inl err \<Rightarrow>
             Some (Some \<lparr>Error = err,
                         Message = ''Failed to fetch punches data from the datastore'',
                         Code = StatusInternalServerError\<rparr>, w, c)
         | Inr punches \<Rightarrow>
             (case rootTemplate_Execute c w u punches of
                (Some err, w') \<Rightarrow>
                  Some (Some \<lparr>Error = errors_New err,
                              Message = ''Failed to execute the root template'',
                              Code = StatusInternalServerError\<rparr>, w', c)
              | (None, w') \<Rightarrow> Some (None, w', c)))"

subsection \<open>Punching\<close>

definition createPunch :: "Context \<Rightarrow> string \<Rightarrow> (appError option \<times> Context) option" where
  "createPunch c punchType =
     (case user_Current c of
        None \<Rightarrow> None
      | Some u \<Rightarrow>
          (let p = \<lparr>Puncher = u_Email u, Type = punchType, Time = time_Now c\<rparr>;
               key = NewIncompleteKey c ''Punch'' (Some (punchKey c))
           in case datastore_Put c key (PunchEntity p) of
                (Inl err, c') \<Rightarrow>
                  Some (Some \<lparr>Error = err,
                              Message = ''Failed to put a punch data to the datastore'',
                              Code = StatusInternalServerError\<rparr>, c')
              | (Inr k, c') \<Rightarrow> Some (None, c')))"

definition myArrivalsHandler :: appHandler where
  "myArrivalsHandler c w r =
     (if Method r = ''POST'' then
        (case createPunch c ''arrival'' of
           None \<Rightarrow> None
         | Some (Some err, c') \<Rightarrow> Some (Some err, w, c')
         | Some (None, c') \<Rightarrow> Some (None, redirect w ''/'', c'))
      else Some (None, w, c))"

definition myLeavesHandler :: appHandler where
  "myLeavesHandler c w r =
     (if Method r = ''POST'' then
        (case createPunch c ''leave'' of
           None \<Rightarrow> None
         | Some (Some err, c') \<Rightarrow> Some (Some err, w, c')
         | Some (None, c') \<Rightarrow> Some (None, redirect w ''/'', c'))
      else Some (None, w, c))"

subsection \<open>The admin user API\<close>

text \<open>\<^verbatim>\<open>strconv.ParseBool\<close>.\<close>

definition ParseBool :: "string \<Rightarrow> error + bool" where
  "ParseBool str =
     (if str \<in> set [''1'', ''t'', ''T'', ''TRUE'', ''true'', ''True''] then Inr True
      else if str \<in> set [''0'', ''f'', ''F'', ''FALSE'', ''false'', ''False''] then Inr False
      else Inl (NumError ''ParseBool'' str ErrSyntax))"

definition getFormBoolValue :: "Request \<Rightarrow> string \<Rightarrow> bool \<Rightarrow> bool \<times> appError option" where
  \<open>getFormBoolValue r name defaultValue =
     (let boolValue = defaultValue;
          strValue = FormValue r name
      in if strValue \<noteq> [] then
           (case ParseBool strValue of
              Inl err \<Rightarrow>
                (False, Some \<lparr>Error = err,
                              Message = ''Failed to parse the "'' @ name
                                        @ ''" parameter as a boolean value'',
                              Code = StatusBadRequest\<rparr>)
            | Inr b \<Rightarrow> (b, None))
         else (boolValue, None))\<close>

definition usersQuery :: "Context \<Rightarrow> Query" where
  "usersQuery c = Order (Ancestor (NewQuery ''User'') (punchKey c)) ''Name''"

definition jsonUser :: "User \<Rightarrow> jsonData" where
  "jsonUser user =
     GoMap [(''email'', GoString (Email user)),
            (''name'', GoString (Name user)),
            (''enabled'', GoBool (Enabled user))]"

definition apiAdminUsersHandler :: apiHandler where
  "apiAdminUsersHandler c w r =
     (if Method r = ''GET'' then
        (let q = usersQuery c;
             users = []
         in case GetAll loadUser q c users of
              Inl err \<Rightarrow>
                Some ((GoNil, Some \<lparr>Error = err,
                                     Message = ''Failed to fetch users data from the datastore'',
                                     Code = StatusInternalServerError\<rparr>), w, c)
            | Inr users \<Rightarrow>
                (let jsonUsers = foldl (\<lambda>js user. append_slice js (jsonUser user)) GoNilSlice users
                 in Some ((GoMap [(''users'', jsonUsers)], None), w, c)))
      else if Method r = ''POST'' then
        (case getFormBoolValue r ''enabled'' True of
           (enabled, Some appErr) \<Rightarrow> Some ((GoNil, Some appErr), w, c)
         | (enabled, None) \<Rightarrow>
             (let c1 = Debugf c ''formvalues. email=%s, name=%s''
                         [ArgString (FormValue r ''email''), ArgString (FormValue r ''name'')];
                  u = \<lparr>Email = FormValue r ''email'', Name = FormValue r ''name'', Enabled = enabled\<rparr>;
                  key = NewIncompleteKey c1 ''User'' (Some (punchKey c1))
              in case datastore_Put c1 key (UserEntity u) of
                   (Inl err, c2) \<Rightarrow>
                     Some ((GoNil, Some \<lparr>Error = err,
                                          Message = ''Failed to put a user data to the datastore'',
                                          Code = StatusInternalServerError\<rparr>), w, c2)
                 | (Inr k, c2) \<Rightarrow>
                     Some ((GoMap [(''user'',
                                    GoMap [(''email'', GoString (FormValue r ''email'')),
                                           (''name'', GoString (Name u)),
                                           (''enabled'', GoBool (Enabled u))])], None), w, c2)))
      else
        (let err = errors_New ''Unsupported http method''
         in Some ((GoNil, Some \<lparr>Error = err,
                                 Message = ''Unsupported http method'',
                                 Code = StatusBadRequest\<rparr>), w, c)))"

subsection \<open>Routing\<close>

datatype Handler = AppHandler appHandler | ApiHandler apiHandler

text \<open>The registrations of \<^verbatim>\<open>init\<close>, in its order.\<close>

definition init :: "(string \<times> Handler) list" where
  "init =
     [(''/'', AppHandler rootHandler),
      (''/my/arrivals'', AppHandler myArrivalsHandler),
      (''/my/leaves'', AppHandler myLeavesHandler),
      (''/api/admin/users'', ApiHandler apiAdminUsersHandler)]"

text \<open>
  The request multiplexer: a pattern that ends in a slash matches every path below it,
  any other pattern only the path itself, and the longest matching pattern wins.
\<close>

definition pathMatch :: "string \<Rightarrow> string \<Rightarrow> bool" where
  "pathMatch pattern path =
     (if pattern \<noteq> [] \<and> last pattern = CHR ''/''
      then take (length pattern) path = pattern
      else pattern = path)"

fun mux_match :: "(string \<times> Handler) list \<Rightarrow> string \<Rightarrow> (string \<times> Handler) option" where
  "mux_match [] path = None"
| "mux_match (ph # phs) path =
     (case mux_match phs path of
        None \<Rightarrow> (if pathMatch (fst ph) path then Some ph else None)
      | Some best \<Rightarrow>
          (if pathMatch (fst ph) path \<and> length (fst best) < length (fst ph)
           then Some ph else Some best))"

definition Handler_ServeHTTP ::
    "Handler \<Rightarrow> Context \<Rightarrow> ResponseWriter \<Rightarrow> Request \<Rightarrow> (ResponseWriter \<times> Context) option" where
  "Handler_ServeHTTP h c w r =
     (case h of
        AppHandler fn \<Rightarrow> appHandler_ServeHTTP fn c w r
      | ApiHandler fn \<Rightarrow> apiHandler_ServeHTTP fn c w r)"

text \<open>
  One request against the registered handlers: the response the client receives and the
  context the request leaves behind.
\<close>

definition serve :: "Context \<Rightarrow> Request \<Rightarrow> (Response \<times> Context) option" where
  "serve c r =
     (case mux_match init (Path (Url r)) of
        None \<Rightarrow> Some (finishRequest (http_Error newResponseWriter ''404 page not found'' 404), c)
      | Some ph \<Rightarrow>
          (case Handler_ServeHTTP (snd ph) c newResponseWriter r of
             None \<Rightarrow> None
           | Some (w, c') \<Rightarrow> Some (finishRequest w, c')))"

section \<open>Example requests\<close>

text \<open>Concrete contexts and requests, on which the theorems below are exercised.\<close>

definition alice :: user_User where
  "alice = \<lparr>u_Email = ''alice@example.com'', u_String = ''alice''\<rparr>"

definition signed_out :: Context where
  "signed_out =
     \<lparr>user_Current = None,
      user_LoginURL = (\<lambda>dest. Inr (''/_ah/login?continue='' @ dest)),
      time_Now = 1000,
      time_Format = (\<lambda>t layout. layout),
      getall_fails = None, put_fails = None, execute_fails = None, encode_fails = None,
      entities = [], logs = []\<rparr>"

definition login_down :: Context where
  "login_down = signed_out\<lparr>user_LoginURL := (\<lambda>dest. Inl ''login service unavailable'')\<rparr>"

definition signed_in :: Context where
  "signed_in = signed_out\<lparr>user_Current := Some alice\<rparr>"

definition request :: "string \<Rightarrow> string \<Rightarrow> (string \<times> string list) list \<Rightarrow> Request" where
  "request m p form = \<lparr>Method = m, Url = \<lparr>Path = p, RawQuery = []\<rparr>, Form = form\<rparr>"

definition numbered_punch :: "int \<Rightarrow> Punch" where
  "numbered_punch n =
     \<lparr>Puncher = ''alice@example.com'',
      Type = (if even n then ''leave'' else ''arrival''),
      Time = 2000 - 10 * n\<rparr>"

text \<open>
  A stand-in for the platform's time formatting: the layout, then the instant's last four
  decimal digits.
\<close>

definition stamp :: "int \<Rightarrow> string \<Rightarrow> string" where
  "stamp t layout =
     layout @ '' #'' @ map (\<lambda>d. ''0123456789'' ! nat (t div d mod 10)) [1000, 100, 10, 1]"

text \<open>
  A store with twelve punches in the fixed collection, the newest first, one punch under
  another parent and one user.
\<close>

definition busy :: Context where
  "busy = signed_in\<lparr>time_Format := stamp, entities :=
     (Key ''User'' [] 20 (Some (Key ''Punch'' ''default_punch'' 0 None)),
        UserEntity \<lparr>Email = ''bob@example.com'', Name = ''Bob'', Enabled = True\<rparr>)
     # (Key ''Punch'' [] 21 (Some (Key ''Punch'' ''other'' 0 None)), PunchEntity (numbered_punch 100))
     # map (\<lambda>n. (Key ''Punch'' [] n (Some (Key ''Punch'' ''default_punch'' 0 None)),
                   PunchEntity (numbered_punch n)))
         [1, 2, 3, 4, 5, 6, 7, 8, 9, 10, 11, 12]\<rparr>"

definition oldest_ten :: "Punch list" where
  "oldest_ten = map numbered_punch [12, 11, 10, 9, 8, 7, 6, 5, 4, 3]"

definition bob_form :: "(string \<times> string list) list" where
  "bob_form = [(''email'', [''bob@example.com'']), (''name'', [''Bob''])]"

definition bob :: User where
  "bob = \<lparr>Email = ''bob@example.com'', Name = ''Bob'', Enabled = True\<rparr>"

definition dave :: User where
  "dave = \<lparr>Email = ''dave@example.com'', Name = ''Dave'', Enabled = True\<rparr>"

definition carol :: User where
  "carol = \<lparr>Email = ''carol@example.com'', Name = ''Carol'', Enabled = False\<rparr>"

text \<open>
  A store with two users below the punch key, stored out of name order, and a third
  user below the user key.
\<close>

definition two_users :: Context where
  "two_users = signed_in\<lparr>entities :=
     [(Key ''User'' [] 1 (Some (Key ''Punch'' ''default_punch'' 0 None)), UserEntity carol),
      (Key ''User'' [] 2 (Some (Key ''User'' ''default_user'' 0 None)), UserEntity dave),
      (Key ''User'' [] 3 (Some (Key ''Punch'' ''default_punch'' 0 None)), UserEntity bob)]\<rparr>"

section \<open>Routing and response lemmas\<close>

lemma mux_api:
  "mux_match init ''/api/admin/users'' = Some (''/api/admin/users'', ApiHandler apiAdminUsersHandler)"
  by (simp add: init_def pathMatch_def)

lemma mux_arrivals:
  "mux_match init ''/my/arrivals'' = Some (''/my/arrivals'', AppHandler myArrivalsHandler)"
  by (simp add: init_def pathMatch_def)

lemma mux_leaves:
  "mux_match init ''/my/leaves'' = Some (''/my/leaves'', AppHandler myLeavesHandler)"
  by (simp add: init_def pathMatch_def)

lemma mux_root: "mux_match init ''/'' = Some (''/'', AppHandler rootHandler)"
  by (simp add: init_def pathMatch_def)

lemma finish_http_Error:
  "finishRequest (http_Error newResponseWriter msg code) =
     \<lparr>resp_status = code,
      resp_header = [''Content-Type'' \<mapsto> [''text/plain; charset=utf-8'']],
      resp_body = [Text (msg @ ''\<newline>'')]\<rparr>"
  by (simp add: finishRequest_def http_Error_def newResponseWriter_def Header_Set_def
      WriteHeader_def Write_def Let_def)

lemma finish_redirect:
  "finishRequest (redirect newResponseWriter url) =
     \<lparr>resp_status = 302, resp_header = [''Location'' \<mapsto> [url]], resp_body = []\<rparr>"
  by (simp add: finishRequest_def redirect_def newResponseWriter_def Header_Set_def
      WriteHeader_def StatusFound_def)

lemma finish_new:
  "finishRequest newResponseWriter =
     \<lparr>resp_status = 200, resp_header = Map.empty, resp_body = []\<rparr>"
  by (simp add: finishRequest_def newResponseWriter_def WriteHeader_def StatusOK_def)

section \<open>Generated identifiers\<close>

lemma fold_max_start: "(b::int) \<le> fold max zs b"
  by (induction zs arbitrary: b) (auto intro: order_trans[OF max.cobounded2])

lemma fold_max_ge: "(x::int) \<in> set xs \<Longrightarrow> x \<le> fold max xs a"
proof (induction xs arbitrary: a)
  case Nil
  then show ?case by simp
next
  case (Cons y ys)
  show ?case
  proof (cases "x = y")
    case True
    then show ?thesis using fold_max_start[of "max y a" ys] by simp
  next
    case False
    then show ?thesis using Cons by simp
  qed
qed

lemma fresh_id_above: "ke \<in> set es \<Longrightarrow> key_intID (fst ke) < fresh_id es"
  using fold_max_ge[of "key_intID (fst ke)" "map (key_intID \<circ> fst) es" 0]
  by (auto simp: fresh_id_def)

lemma fresh_key_unused: "Key kind sid (fresh_id es) parent \<notin> fst ` set es"
  using fresh_id_above by fastforce

lemma Put_incomplete:
  assumes "put_fails c = None"
  shows "datastore_Put c (NewIncompleteKey c' kind parent) e =
           (Inr (Key kind [] (fresh_id (entities c)) parent),
            c\<lparr>entities := entities c @ [(Key kind [] (fresh_id (entities c)) parent, e)]\<rparr>)"
proof -
  have "filter (\<lambda>ke. fst ke \<noteq> Key kind [] (fresh_id (entities c)) parent) (entities c) = entities c"
    using fresh_key_unused[of kind "[]" "entities c" parent] by (force simp: filter_id_conv)
  then show ?thesis using assms
    by (simp add: datastore_Put_def NewIncompleteKey_def NewKey_def Incomplete_def Let_def)
qed

section \<open>The gates without a signed-in user\<close>

text \<open>
  Claim C2. A request to \<^verbatim>\<open>/api/admin/users\<close> without a signed-in user: the JSON gate
  answers by itself, whatever handler it wraps (the handler does not occur in its result),
  with status 500 and the message \<^verbatim>\<open>login needed\<close>. The only header sent is the content
  type of the error text, so there is no \<^verbatim>\<open>Location\<close> and no redirect; the cause is logged
  and nothing else of the context changes.
\<close>

theorem apiHandler_login_needed:
  assumes "user_Current c = None" and "Path (Url r) = ''/api/admin/users''"
  shows "apiHandler_ServeHTTP fn c w r =
           Some (http_Error w ''login needed'' StatusInternalServerError,
                 Errorf c ''%v'' [ArgString ''login needed''])
       \<and> serve c r =
           Some (\<lparr>resp_status = 500,
                   resp_header = [''Content-Type'' \<mapsto> [''text/plain; charset=utf-8'']],
                   resp_body = [Text ''login needed\<newline>'']\<rparr>,
                 c\<lparr>logs := logs c @ [LogLine.Errorf ''%v'' [ArgString ''login needed'']]\<rparr>)"
  using assms
  by (simp add: apiHandler_ServeHTTP_def serve_def mux_api Handler_ServeHTTP_def
      finish_http_Error StatusInternalServerError_def Errorf_def Let_def)

theorem apiHandler_login_needed_witness:
  "user_Current signed_out = None
   \<and> Path (Url (request ''GET'' ''/api/admin/users'' [])) = ''/api/admin/users''
   \<and> serve signed_out (request ''GET'' ''/api/admin/users'' []) =
         Some (\<lparr>resp_status = 500,
                 resp_header = [''Content-Type'' \<mapsto> [''text/plain; charset=utf-8'']],
                 resp_body = [Text ''login needed\<newline>'']\<rparr>,
               signed_out\<lparr>logs := [LogLine.Errorf ''%v'' [ArgString ''login needed'']]\<rparr>)"
  using apiHandler_login_needed[where c = signed_out
      and r = "request ''GET'' ''/api/admin/users'' []"
      and fn = apiAdminUsersHandler and w = newResponseWriter]
  by (simp add: signed_out_def request_def)

text \<open>
  Claim C3. A request to \<^verbatim>\<open>/\<close>, \<^verbatim>\<open>/my/arrivals\<close> or \<^verbatim>\<open>/my/leaves\<close> without a signed-in
  user: the HTML gate answers by itself, whatever handler it wraps. When the platform
  gives a login URL for the request's URL, the response is status 302 with that URL as
  its \<^verbatim>\<open>Location\<close> and an empty body, and the context is unchanged; when the platform
  fails to give one, the response is status 500 with the failure's message, which is also
  logged.
\<close>

theorem appHandler_login_redirect:
  assumes "user_Current c = None"
    and "Path (Url r) \<in> {''/'', ''/my/arrivals'', ''/my/leaves''}"
  shows "appHandler_ServeHTTP fn c w r =
           (case user_LoginURL c (URL_String (Url r)) of
              Inr url \<Rightarrow> Some (redirect w url, c)
            | Inl err \<Rightarrow> Some (http_Error w err StatusInternalServerError,
                                Errorf c ''%v'' [ArgString err]))
       \<and> serve c r =
           (case user_LoginURL c (URL_String (Url r)) of
              Inr url \<Rightarrow>
                Some (\<lparr>resp_status = 302, resp_header = [''Location'' \<mapsto> [url]],
                        resp_body = []\<rparr>, c)
            | Inl err \<Rightarrow>
                Some (\<lparr>resp_status = 500,
                        resp_header = [''Content-Type'' \<mapsto> [''text/plain; charset=utf-8'']],
                        resp_body = [Text (err @ ''\<newline>'')]\<rparr>,
                      c\<lparr>logs := logs c @ [LogLine.Errorf ''%v'' [ArgString err]]\<rparr>))"
proof -
  have gate: "\<And>fn w. appHandler_ServeHTTP fn c w r =
           (case user_LoginURL c (URL_String (Url r)) of
              Inr url \<Rightarrow> Some (redirect w url, c)
            | Inl err \<Rightarrow> Some (http_Error w err StatusInternalServerError,
                                Errorf c ''%v'' [ArgString err]))"
    using assms(1) by (simp add: appHandler_ServeHTTP_def Let_def split: sum.splits)
  from assms(2) obtain pat h where m: "mux_match init (Path (Url r)) = Some (pat, AppHandler h)"
    using mux_root mux_arrivals mux_leaves by auto
  have "serve c r =
          (case appHandler_ServeHTTP h c newResponseWriter r of
             None \<Rightarrow> None | Some (w, c') \<Rightarrow> Some (finishRequest w, c'))"
    by (simp add: serve_def m Handler_ServeHTTP_def)
  then show ?thesis
    by (simp add: gate finish_http_Error finish_redirect StatusInternalServerError_def Errorf_def
        split: sum.splits)
qed

theorem appHandler_login_redirect_witness:
  "user_Current signed_out = None \<and> user_Current login_down = None
   \<and> serve signed_out (request ''GET'' ''/my/leaves'' []) =
         Some (\<lparr>resp_status = 302,
                 resp_header = [''Location'' \<mapsto> [''/_ah/login?continue=/my/leaves'']],
                 resp_body = []\<rparr>, signed_out)
   \<and> serve login_down (request ''POST'' ''/'' []) =
         Some (\<lparr>resp_status = 500,
                 resp_header = [''Content-Type'' \<mapsto> [''text/plain; charset=utf-8'']],
                 resp_body = [Text ''login service unavailable\<newline>'']\<rparr>,
               login_down\<lparr>logs :=
                 [LogLine.Errorf ''%v'' [ArgString ''login service unavailable'']]\<rparr>)"
  using appHandler_login_redirect[where c = signed_out and r = "request ''GET'' ''/my/leaves'' []"
      and fn = myLeavesHandler and w = newResponseWriter]
    appHandler_login_redirect[where c = login_down and r = "request ''POST'' ''/'' []"
      and fn = rootHandler and w = newResponseWriter]
  by (simp add: signed_out_def login_down_def request_def URL_String_def)

section \<open>Punching\<close>

text \<open>
  Claim C5. A signed-in user's POST to \<^verbatim>\<open>/my/arrivals\<close> (to \<^verbatim>\<open>/my/leaves\<close>), when the
  datastore accepts the write: the store gains exactly one entity, a punch whose puncher
  is the user's e-mail address, whose type is \<^verbatim>\<open>arrival\<close> (\<^verbatim>\<open>leave\<close>) and whose time is the
  current time, under a key of kind \<^verbatim>\<open>Punch\<close> whose parent is the fixed punch key and whose
  identifier the store generated (no stored entity has that key); the response is status
  302 with \<^verbatim>\<open>Location: /\<close>.
\<close>

theorem punch_created:
  assumes "user_Current c = Some u"
    and "Method r = ''POST''"
    and "put_fails c = None"
    and "(Path (Url r), punchType) \<in> {(''/my/arrivals'', ''arrival''), (''/my/leaves'', ''leave'')}"
  shows "serve c r =
           Some (\<lparr>resp_status = 302, resp_header = [''Location'' \<mapsto> [''/'']], resp_body = []\<rparr>,
                 c\<lparr>entities := entities c @
                     [(Key ''Punch'' [] (fresh_id (entities c)) (Some (punchKey c)),
                       PunchEntity \<lparr>Puncher = u_Email u, Type = punchType, Time = time_Now c\<rparr>)]\<rparr>)
       \<and> Key ''Punch'' [] (fresh_id (entities c)) (Some (punchKey c)) \<notin> fst ` set (entities c)
       \<and> punchKey c = Key ''Punch'' ''default_punch'' 0 None"
proof -
  have cp: "createPunch c punchType =
      Some (None, c\<lparr>entities := entities c @
                     [(Key ''Punch'' [] (fresh_id (entities c)) (Some (punchKey c)),
                       PunchEntity \<lparr>Puncher = u_Email u, Type = punchType, Time = time_Now c\<rparr>)]\<rparr>)"
    using assms(1,3) by (simp add: createPunch_def Put_incomplete Let_def)
  from assms(4) consider "Path (Url r) = ''/my/arrivals''" "punchType = ''arrival''"
    | "Path (Url r) = ''/my/leaves''" "punchType = ''leave''"
    by auto
  then have "serve c r =
           Some (\<lparr>resp_status = 302, resp_header = [''Location'' \<mapsto> [''/'']], resp_body = []\<rparr>,
                 c\<lparr>entities := entities c @
                     [(Key ''Punch'' [] (fresh_id (entities c)) (Some (punchKey c)),
                       PunchEntity \<lparr>Puncher = u_Email u, Type = punchType, Time = time_Now c\<rparr>)]\<rparr>)"
  proof cases
    case 1
    then show ?thesis using assms(1,2) cp
      by (simp add: serve_def mux_arrivals Handler_ServeHTTP_def appHandler_ServeHTTP_def
          myArrivalsHandler_def finish_redirect)
  next
    case 2
    then show ?thesis using assms(1,2) cp
      by (simp add: serve_def mux_leaves Handler_ServeHTTP_def appHandler_ServeHTTP_def
          myLeavesHandler_def finish_redirect)
  qed
  then show ?thesis
    using fresh_key_unused[of "''Punch''" "[]" "entities c" "Some (punchKey c)"]
    by (simp add: punchKey_def NewKey_def)
qed

theorem punch_created_witness:
  "serve signed_in (request ''POST'' ''/my/arrivals'' []) =
     Some (\<lparr>resp_status = 302, resp_header = [''Location'' \<mapsto> [''/'']], resp_body = []\<rparr>,
           signed_in\<lparr>entities :=
             [(Key ''Punch'' [] 1 (Some (Key ''Punch'' ''default_punch'' 0 None)),
               PunchEntity \<lparr>Puncher = ''alice@example.com'', Type = ''arrival'', Time = 1000\<rparr>)]\<rparr>)
   \<and> serve signed_in (request ''POST'' ''/my/leaves'' []) =
     Some (\<lparr>resp_status = 302, resp_header = [''Location'' \<mapsto> [''/'']], resp_body = []\<rparr>,
           signed_in\<lparr>entities :=
             [(Key ''Punch'' [] 1 (Some (Key ''Punch'' ''default_punch'' 0 None)),
               PunchEntity \<lparr>Puncher = ''alice@example.com'', Type = ''leave'', Time = 1000\<rparr>)]\<rparr>)"
  using punch_created[where c = signed_in and r = "request ''POST'' ''/my/arrivals'' []"
      and u = alice and punchType = "''arrival''"]
    punch_created[where c = signed_in and r = "request ''POST'' ''/my/leaves'' []"
      and u = alice and punchType = "''leave''"]
  by (simp add: signed_in_def signed_out_def request_def alice_def fresh_id_def)

text \<open>
  Claim C6. A signed-in user's request to \<^verbatim>\<open>/my/arrivals\<close> or \<^verbatim>\<open>/my/leaves\<close> with a method
  other than POST: the response is status 200 with no header and an empty body, and the
  context (the stored entities and the log) is what it was.
\<close>

theorem punch_other_method_noop:
  assumes "user_Current c = Some u"
    and "Path (Url r) \<in> {''/my/arrivals'', ''/my/leaves''}"
    and "Method r \<noteq> ''POST''"
  shows "serve c r = Some (\<lparr>resp_status = 200, resp_header = Map.empty, resp_body = []\<rparr>, c)"
proof -
  from assms(2) consider "Path (Url r) = ''/my/arrivals''" | "Path (Url r) = ''/my/leaves''"
    by auto
  then show ?thesis
  proof cases
    case 1
    then show ?thesis using assms(1,3)
      by (simp add: serve_def mux_arrivals Handler_ServeHTTP_def appHandler_ServeHTTP_def
          myArrivalsHandler_def finish_new)
  next
    case 2
    then show ?thesis using assms(1,3)
      by (simp add: serve_def mux_leaves Handler_ServeHTTP_def appHandler_ServeHTTP_def
          myLeavesHandler_def finish_new)
  qed
qed

theorem punch_other_method_noop_witness:
  "serve signed_in (request ''GET'' ''/my/arrivals'' []) =
     Some (\<lparr>resp_status = 200, resp_header = Map.empty, resp_body = []\<rparr>, signed_in)
   \<and> serve signed_in (request ''PUT'' ''/my/leaves'' []) =
     Some (\<lparr>resp_status = 200, resp_header = Map.empty, resp_body = []\<rparr>, signed_in)"
  using punch_other_method_noop[where c = signed_in and r = "request ''GET'' ''/my/arrivals'' []"
      and u = alice]
    punch_other_method_noop[where c = signed_in and r = "request ''PUT'' ''/my/leaves'' []"
      and u = alice]
  by (simp add: signed_in_def signed_out_def request_def)

section \<open>The admin user API\<close>

text \<open>
  Claim C9. A request to the admin user handler whose method is neither GET nor POST: the
  handler returns the error of status 400 whose cause and message are
  \<^verbatim>\<open>Unsupported http method\<close>, with no JSON value, and leaves the response writer and the
  context (so the stored entities) as they were.
\<close>

theorem api_unsupported_method:
  assumes "Method r \<noteq> ''GET''" and "Method r \<noteq> ''POST''"
  shows "apiAdminUsersHandler c w r =
           Some ((GoNil, Some \<lparr>Error = errors_New ''Unsupported http method'',
                                Message = ''Unsupported http method'',
                                Code = 400\<rparr>), w, c)"
  using assms by (simp add: apiAdminUsersHandler_def Let_def StatusBadRequest_def)

theorem api_unsupported_method_witness:
  "apiAdminUsersHandler signed_in newResponseWriter (request ''DELETE'' ''/api/admin/users'' []) =
     Some ((GoNil, Some \<lparr>Error = errorString ''Unsupported http method'',
                          Message = ''Unsupported http method'',
                          Code = 400\<rparr>), newResponseWriter, signed_in)"
  using api_unsupported_method[where c = signed_in and w = newResponseWriter
      and r = "request ''DELETE'' ''/api/admin/users'' []"]
  by (simp add: request_def errors_New_def)

section \<open>The root page\<close>

lemma load_all_Punch: "load_all loadPunch kes = Some ps \<Longrightarrow> map snd kes = map PunchEntity ps"
proof (induction kes arbitrary: ps)
  case Nil
  then show ?case by simp
next
  case (Cons ke kes)
  then show ?case
    by (cases "snd ke") (auto split: option.splits)
qed

lemma run_rootQuery:
  "run_query (rootQuery c) es =
     take 10 (sort_key (index_key ''Time'')
       (filter (\<lambda>ke. property ''Time'' (snd ke) \<noteq> None)
         (filter (\<lambda>ke. key_kind (fst ke) = ''Punch'' \<and> has_ancestor (punchKey c) (fst ke)) es)))"
  by (simp add: run_query_def rootQuery_def limited_def ordered_def selected_def
      Limit_def Order_def Ancestor_def NewQuery_def)

lemma index_key_Time_Punch: "index_key ''Time'' (k, PunchEntity p) = (2, Time p, [])"
  by (simp add: index_key_def)

lemma sorted_Time:
  assumes "sorted (map (index_key ''Time'') kes)" and "map snd kes = map PunchEntity ps"
  shows "sorted (map Time ps)"
proof -
  have "map (index_key ''Time'') kes =
          map (\<lambda>e. case property ''Time'' e of None \<Rightarrow> (0, 0, []) | Some v \<Rightarrow> rank v) (map snd kes)"
    by (simp add: index_key_def comp_def)
  also have "\<dots> = map (\<lambda>p. (2::nat, Time p, []::string)) ps"
    by (simp add: assms(2) comp_def)
  finally have "sorted (map (\<lambda>p. (2::nat, Time p, []::string)) ps)" using assms(1) by simp
  then show ?thesis
    by (simp add: sorted_map sorted_wrt_iff_nth_less less_eq_prod_def) (meson order_less_imp_le)
qed

lemma take_oldest:
  assumes "sorted (map f xs)" and "y \<in> set xs"
  shows "y \<in> set (take n xs) \<or> (length (take n xs) = n \<and> (\<forall>x\<in>set (take n xs). f x \<le> f y))"
proof (cases "y \<in> set (take n xs)")
  case True
  then show ?thesis by simp
next
  case False
  have split: "xs = take n xs @ drop n xs" by simp
  with assms(2) False have yd: "y \<in> set (drop n xs)"
    by (metis Un_iff set_append)
  then have "n < length xs" by (cases "n < length xs") auto
  then have len: "length (take n xs) = n" by simp
  have "sorted (map f (take n xs) @ map f (drop n xs))"
    using assms(1) by (metis split map_append)
  then have "\<forall>x\<in>set (take n xs). f x \<le> f y"
    using yd by (auto simp: sorted_append)
  with len show ?thesis by simp
qed


lemma count_items:
  "length (filter (\<lambda>ch. ch = Text ''\<newline>      <li>'') (rootTemplate c u ps)) = length ps"
proof -
  have "length (filter (\<lambda>ch. ch = Text ''\<newline>      <li>'') (concat (map (punchItem c) ps))) = length ps"
    by (induction ps) (simp_all add: punchItem_def)
  then show ?thesis by (simp add: rootTemplate_def)
qed

lemma finish_Write_new:
  "finishRequest (Write newResponseWriter chunks) =
     \<lparr>resp_status = 200, resp_header = Map.empty, resp_body = chunks\<rparr>"
  by (simp add: finishRequest_def Write_def newResponseWriter_def WriteHeader_def StatusOK_def Let_def)

lemma serve_root:
  assumes "user_Current c = Some u" and "Path (Url r) = ''/''"
  shows "serve c r =
     (case GetAll loadPunch (rootQuery c) c [] of
        Inl err \<Rightarrow>
          Some (\<lparr>resp_status = 500,
                  resp_header = [''Content-Type'' \<mapsto> [''text/plain; charset=utf-8'']],
                  resp_body = [Text ''Failed to fetch punches data from the datastore\<newline>'']\<rparr>,
                c\<lparr>logs := logs c @ [LogLine.Errorf ''%v'' [ArgError err]]\<rparr>)
      | Inr ps \<Rightarrow>
          (case execute_fails c of
             Some msg \<Rightarrow>
               Some (\<lparr>resp_status = 500,
                       resp_header = [''Content-Type'' \<mapsto> [''text/plain; charset=utf-8'']],
                       resp_body = [Text ''Failed to execute the root template\<newline>'']\<rparr>,
                     c\<lparr>logs := logs c @ [LogLine.Errorf ''%v'' [ArgError (errorString msg)]]\<rparr>)
           | None \<Rightarrow>
               Some (\<lparr>resp_status = 200, resp_header = Map.empty,
                       resp_body = rootTemplate c (Some u) ps\<rparr>, c)))"
  using assms
  by (simp add: serve_def mux_root Handler_ServeHTTP_def appHandler_ServeHTTP_def rootHandler_def
      rootTemplate_Execute_def handleAppError_def finish_http_Error finish_Write_new Errorf_def
      StatusInternalServerError_def errors_New_def Let_def split: sum.splits option.splits)

lemma punchItem_fun:
  "punchItem c =
     (\<lambda>p. [Text ''\<newline>      <li>'', Escaped (Type p), Text '' '',
           Escaped (time_Format c (Time p) ''2006-01-02 15:04''), Text ''</li>\<newline>    ''])"
  by (rule ext) (simp add: punchItem_def formatDateTime_def)

text \<open>
  Claim C4. A signed-in user's request to \<^verbatim>\<open>/\<close>, whatever its method. The response is
  determined by the fetch of the root query (kind \<^verbatim>\<open>Punch\<close>, ancestor the fixed punch key,
  order \<^verbatim>\<open>Time\<close>, limit 10): when the fetch or the template fails, it is status 500 with
  the fixed message; otherwise it is status 200 and its body is the page: the greeting,
  then one list item for each fetched punch, in the order fetched, showing the punch's
  type and its time in the layout \<^verbatim>\<open>2006-01-02 15:04\<close>, then the two forms. Whenever the
  fetch succeeds, the fetched punches are at most 10, in ascending order of time, all
  stored in the fixed punch collection, and they are the oldest of it: a stored punch of
  the collection that is not among them is no older than any of the ten fetched. So the
  page lists at most 10 punches, oldest first.
\<close>

theorem root_lists_ten_oldest:
  assumes "user_Current c = Some u" and "Path (Url r) = ''/''"
  shows \<open>serve c r =
     (case GetAll loadPunch (rootQuery c) c [] of
        Inl err \<Rightarrow>
          Some (\<lparr>resp_status = 500,
                  resp_header = [''Content-Type'' \<mapsto> [''text/plain; charset=utf-8'']],
                  resp_body = [Text ''Failed to fetch punches data from the datastore\<newline>'']\<rparr>,
                c\<lparr>logs := logs c @ [LogLine.Errorf ''%v'' [ArgError err]]\<rparr>)
      | Inr ps \<Rightarrow>
          (case execute_fails c of
             Some msg \<Rightarrow>
               Some (\<lparr>resp_status = 500,
                       resp_header = [''Content-Type'' \<mapsto> [''text/plain; charset=utf-8'']],
                       resp_body = [Text ''Failed to execute the root template\<newline>'']\<rparr>,
                     c\<lparr>logs := logs c @ [LogLine.Errorf ''%v'' [ArgError (errorString msg)]]\<rparr>)
           | None \<Rightarrow>
               Some (\<lparr>resp_status = 200, resp_header = Map.empty,
                       resp_body =
                         [Text (''\<newline><html>\<newline>  <head>\<newline>    <title>Timecard</title>\<newline>''
                                @ ''  </head>\<newline>  <body>\<newline>    <div>Hello, ''),
                          Escaped (u_String u),
                          Text ''!</div>\<newline>    <ul>\<newline>    '']
                         @ concat (map (\<lambda>p. [Text ''\<newline>      <li>'',
                                               Escaped (Type p),
                                               Text '' '',
                                               Escaped (time_Format c (Time p) ''2006-01-02 15:04''),
                                               Text ''</li>\<newline>    '']) ps)
                         @ [Text (''\<newline>    </ul>\<newline>''
                                @ ''    <form action="/my/arrivals" method="post">\<newline>''
                                @ ''      <input type="submit" value="Arrive">\<newline>''
                                @ ''    </form>\<newline>''
                                @ ''    <form action="/my/leaves" method="post">\<newline>''
                                @ ''      <input type="submit" value="Leave">\<newline>''
                                @ ''    </form>\<newline>  </body>\<newline></html>\<newline>'')]\<rparr>, c)))
   \<and> (\<forall>ps. GetAll loadPunch (rootQuery c) c [] = Inr ps \<longrightarrow>
          length ps \<le> 10
        \<and> sorted (map Time ps)
        \<and> (\<forall>p\<in>set ps. \<exists>k. (k, PunchEntity p) \<in> set (entities c)
                \<and> key_kind k = ''Punch'' \<and> has_ancestor (punchKey c) k)
        \<and> (\<forall>k p. (k, PunchEntity p) \<in> set (entities c)
                \<and> key_kind k = ''Punch'' \<and> has_ancestor (punchKey c) k \<longrightarrow>
              p \<in> set ps \<or> (length ps = 10 \<and> (\<forall>q\<in>set ps. Time q \<le> Time p)))
        \<and> length (filter (\<lambda>ch. ch = Text ''\<newline>      <li>'') (rootTemplate c (Some u) ps))
            = length ps)\<close>
  (is "?page \<and> ?fetched")
proof -
  have page: ?page
    using serve_root[OF assms]
    by (simp add: rootTemplate_def punchItem_fun split: sum.splits option.splits)
  have fetched: ?fetched
  proof (intro conjI allI impI)
    fix ps
    assume fetch: "GetAll loadPunch (rootQuery c) c [] = Inr ps"
    define coll where
      "coll = filter (\<lambda>ke. property ''Time'' (snd ke) \<noteq> None)
                (filter (\<lambda>ke. key_kind (fst ke) = ''Punch'' \<and> has_ancestor (punchKey c) (fst ke))
                   (entities c))"
    define srt where "srt = sort_key (index_key ''Time'') coll"
    have res: "run_query (rootQuery c) (entities c) = take 10 srt"
      by (simp add: run_rootQuery srt_def coll_def)
    from fetch have ld: "load_all loadPunch (take 10 srt) = Some ps"
      by (auto simp: GetAll_def res split: option.splits)
    then have snd_eq: "map snd (take 10 srt) = map PunchEntity ps"
      by (rule load_all_Punch)
    then have len: "length ps = length (take 10 srt)"
      by (metis length_map)
    have srt_sorted: "sorted (map (index_key ''Time'') srt)"
      by (simp add: srt_def)
    show "length ps \<le> 10" using len by simp
    have "sorted (map (index_key ''Time'') (take 10 srt))"
      using srt_sorted by (simp add: take_map[symmetric])
    then show "sorted (map Time ps)" using snd_eq by (rule sorted_Time)
    have mem: "\<And>p. p \<in> set ps \<longleftrightarrow> PunchEntity p \<in> snd ` set (take 10 srt)"
    proof -
      fix p
      have "PunchEntity p \<in> set (map PunchEntity ps) \<longleftrightarrow> PunchEntity p \<in> snd ` set (take 10 srt)"
        using snd_eq by (metis set_map)
      then show "p \<in> set ps \<longleftrightarrow> PunchEntity p \<in> snd ` set (take 10 srt)" by auto
    qed
    show "\<forall>p\<in>set ps. \<exists>k. (k, PunchEntity p) \<in> set (entities c)
                  \<and> key_kind k = ''Punch'' \<and> has_ancestor (punchKey c) k"
    proof
      fix p assume "p \<in> set ps"
      then obtain k where "(k, PunchEntity p) \<in> set (take 10 srt)"
        using mem by force
      then have "(k, PunchEntity p) \<in> set coll"
        using set_take_subset[of 10 srt] by (auto simp: srt_def)
      then show "\<exists>k. (k, PunchEntity p) \<in> set (entities c)
                  \<and> key_kind k = ''Punch'' \<and> has_ancestor (punchKey c) k"
        by (auto simp: coll_def)
    qed
    show "length (filter (\<lambda>ch. ch = Text ''\<newline>      <li>'') (rootTemplate c (Some u) ps))
              = length ps"
      by (rule count_items)
    fix k p
    assume stored: "(k, PunchEntity p) \<in> set (entities c)
                  \<and> key_kind k = ''Punch'' \<and> has_ancestor (punchKey c) k"
    then have "(k, PunchEntity p) \<in> set srt"
      by (simp add: srt_def coll_def)
    from take_oldest[OF srt_sorted this, of 10]
    show "p \<in> set ps \<or> (length ps = 10 \<and> (\<forall>q\<in>set ps. Time q \<le> Time p))"
    proof
      assume "(k, PunchEntity p) \<in> set (take 10 srt)"
      then have "p \<in> set ps" using mem by force
      then show ?thesis by simp
    next
      assume a: "length (take 10 srt) = 10 \<and>
         (\<forall>x\<in>set (take 10 srt). index_key ''Time'' x \<le> index_key ''Time'' (k, PunchEntity p))"
      have "\<forall>q\<in>set ps. Time q \<le> Time p"
      proof
        fix q assume "q \<in> set ps"
        then obtain k' where "(k', PunchEntity q) \<in> set (take 10 srt)"
          using mem by force
        with a have "index_key ''Time'' (k', PunchEntity q) \<le> index_key ''Time'' (k, PunchEntity p)"
          by blast
        then show "Time q \<le> Time p"
          by (auto simp: index_key_Time_Punch)
      qed
      with a len show ?thesis by simp
    qed
  qed
  from page fetched show ?thesis by (rule conjI)
qed


theorem root_lists_ten_oldest_witness:
  \<open>serve busy (request ''HEAD'' ''/'' []) =
     Some (\<lparr>resp_status = 200, resp_header = Map.empty,
             resp_body =
               [Text (''\<newline><html>\<newline>  <head>\<newline>    <title>Timecard</title>\<newline>''
                      @ ''  </head>\<newline>  <body>\<newline>    <div>Hello, ''),
                Escaped ''alice'',
                Text ''!</div>\<newline>    <ul>\<newline>    '']
               @ concat (map (\<lambda>(ty, ts). [Text ''\<newline>      <li>'', Escaped ty, Text '' '',
                                          Escaped ts, Text ''</li>\<newline>    ''])
                   [(''leave'', ''2006-01-02 15:04 #1880''),
                    (''arrival'', ''2006-01-02 15:04 #1890''),
                    (''leave'', ''2006-01-02 15:04 #1900''),
                    (''arrival'', ''2006-01-02 15:04 #1910''),
                    (''leave'', ''2006-01-02 15:04 #1920''),
                    (''arrival'', ''2006-01-02 15:04 #1930''),
                    (''leave'', ''2006-01-02 15:04 #1940''),
                    (''arrival'', ''2006-01-02 15:04 #1950''),
                    (''leave'', ''2006-01-02 15:04 #1960''),
                    (''arrival'', ''2006-01-02 15:04 #1970'')])
               @ [Text (''\<newline>    </ul>\<newline>''
                      @ ''    <form action="/my/arrivals" method="post">\<newline>''
                      @ ''      <input type="submit" value="Arrive">\<newline>''
                      @ ''    </form>\<newline>''
                      @ ''    <form action="/my/leaves" method="post">\<newline>''
                      @ ''      <input type="submit" value="Leave">\<newline>''
                      @ ''    </form>\<newline>  </body>\<newline></html>\<newline>'')]\<rparr>, busy)
   \<and> GetAll loadPunch (rootQuery busy) busy [] = Inr oldest_ten
   \<and> length oldest_ten = 10
   \<and> map Time oldest_ten = [1880, 1890, 1900, 1910, 1920, 1930, 1940, 1950, 1960, 1970]
   \<and> sorted (map Time oldest_ten)\<close>
proof -
  have fetch: "GetAll loadPunch (rootQuery busy) busy [] = Inr oldest_ten"
    by (simp add: GetAll_def run_rootQuery busy_def signed_in_def signed_out_def oldest_ten_def
        punchKey_def NewKey_def index_key_def numbered_punch_def)
  have times: "map Time oldest_ten = [1880, 1890, 1900, 1910, 1920, 1930, 1940, 1950, 1960, 1970]"
    by (simp add: oldest_ten_def numbered_punch_def)
  have pre: "user_Current busy = Some alice" "execute_fails busy = None"
    "Path (Url (request ''HEAD'' ''/'' [])) = ''/''" "time_Format busy = stamp"
    by (simp_all add: busy_def signed_in_def signed_out_def request_def)
  note t = root_lists_ten_oldest[where c = busy and u = alice and r = "request ''HEAD'' ''/'' []",
      OF pre(1) pre(3)]
  have page: \<open>serve busy (request ''HEAD'' ''/'' []) = Some (\<lparr>resp_status = 200, resp_header = Map.empty,
             resp_body =
               [Text (''\<newline><html>\<newline>  <head>\<newline>    <title>Timecard</title>\<newline>''
                      @ ''  </head>\<newline>  <body>\<newline>    <div>Hello, ''),
                Escaped (u_String alice),
                Text ''!</div>\<newline>    <ul>\<newline>    '']
               @ concat (map (\<lambda>p. [Text ''\<newline>      <li>'', Escaped (Type p), Text '' '',
                                     Escaped (stamp (Time p) ''2006-01-02 15:04''),
                                     Text ''</li>\<newline>    '']) oldest_ten)
               @ [Text (''\<newline>    </ul>\<newline>''
                      @ ''    <form action="/my/arrivals" method="post">\<newline>''
                      @ ''      <input type="submit" value="Arrive">\<newline>''
                      @ ''    </form>\<newline>''
                      @ ''    <form action="/my/leaves" method="post">\<newline>''
                      @ ''      <input type="submit" value="Leave">\<newline>''
                      @ ''    </form>\<newline>  </body>\<newline></html>\<newline>'')]\<rparr>, busy)\<close>
    using t[THEN conjunct1] by (simp add: fetch pre)
  have bounds: "length oldest_ten \<le> 10 \<and> sorted (map Time oldest_ten)"
    using t[THEN conjunct2, rule_format, OF fetch] by simp
  have len: "length oldest_ten = 10" by (simp add: oldest_ten_def)
  have items: "map (\<lambda>p. (Type p, stamp (Time p) ''2006-01-02 15:04'')) oldest_ten =
                   [(''leave'', ''2006-01-02 15:04 #1880''),
                    (''arrival'', ''2006-01-02 15:04 #1890''),
                    (''leave'', ''2006-01-02 15:04 #1900''),
                    (''arrival'', ''2006-01-02 15:04 #1910''),
                    (''leave'', ''2006-01-02 15:04 #1920''),
                    (''arrival'', ''2006-01-02 15:04 #1930''),
                    (''leave'', ''2006-01-02 15:04 #1940''),
                    (''arrival'', ''2006-01-02 15:04 #1950''),
                    (''leave'', ''2006-01-02 15:04 #1960''),
                    (''arrival'', ''2006-01-02 15:04 #1970'')]"
    by (simp add: oldest_ten_def numbered_punch_def stamp_def)
  have "map (\<lambda>p. [Text ''\<newline>      <li>'', Escaped (Type p), Text '' '',
                                     Escaped (stamp (Time p) ''2006-01-02 15:04''),
                                     Text ''</li>\<newline>    '']) oldest_ten =
        map (\<lambda>(ty, ts). [Text ''\<newline>      <li>'', Escaped ty, Text '' '',
                                          Escaped ts, Text ''</li>\<newline>    ''])
          (map (\<lambda>p. (Type p, stamp (Time p) ''2006-01-02 15:04'')) oldest_ten)"
    by (simp add: comp_def)
  with page items bounds len times fetch show ?thesis
    by (simp add: alice_def del: map_map)
qed

section \<open>Creating users\<close>

lemma marshal_jsonUser:
  "marshal (jsonUser u) =
     JObject [(''email'', JString (Email u)), (''enabled'', JBool (Enabled u)), (''name'', JString (Name u))]"
  by (simp add: jsonUser_def)

lemma finish_json:
  "finishRequest (Write (Header_Add newResponseWriter ''Content-Type'' ''application/json'') chunks) =
     \<lparr>resp_status = 200, resp_header = [''Content-Type'' \<mapsto> [''application/json'']],
      resp_body = chunks\<rparr>"
  by (simp add: finishRequest_def Write_def Header_Add_def newResponseWriter_def WriteHeader_def
      StatusOK_def Let_def)

lemma getFormBoolValue_enabled:
  \<open>getFormBoolValue r ''enabled'' True =
     (if FormValue r ''enabled'' = [] then (True, None)
      else case ParseBool (FormValue r ''enabled'') of
             Inr b \<Rightarrow> (b, None)
           | Inl err \<Rightarrow>
               (False, Some \<lparr>Error = err,
                             Message = ''Failed to parse the "enabled" parameter as a boolean value'',
                             Code = 400\<rparr>))\<close>
  by (simp add: getFormBoolValue_def Let_def StatusBadRequest_def split: sum.splits)

lemma serve_api:
  assumes "user_Current c = Some u" and "Path (Url r) = ''/api/admin/users''"
  shows "serve c r =
     (case apiHandler_ServeHTTP apiAdminUsersHandler c newResponseWriter r of
        None \<Rightarrow> None
      | Some (w, c') \<Rightarrow> Some (finishRequest w, c'))"
  using assms by (simp add: serve_def mux_api Handler_ServeHTTP_def)

lemma finish_error_then_json:
  "finishRequest (Write (Header_Add (http_Error newResponseWriter msg code) ''Content-Type''
       ''application/json'') chunks) =
     \<lparr>resp_status = code,
      resp_header = [''Content-Type'' \<mapsto> [''text/plain; charset=utf-8'']],
      resp_body = Text (msg @ ''\<newline>'') # chunks\<rparr>"
  by (simp add: finishRequest_def Write_def Header_Add_def Header_Set_def http_Error_def
      newResponseWriter_def WriteHeader_def StatusOK_def Let_def)

lemma finish_error_then_error:
  "finishRequest (http_Error (Header_Add (http_Error newResponseWriter msg code) ''Content-Type''
       ''application/json'') msg' code') =
     \<lparr>resp_status = code,
      resp_header = [''Content-Type'' \<mapsto> [''text/plain; charset=utf-8'']],
      resp_body = [Text (msg @ ''\<newline>''), Text (msg' @ ''\<newline>'')]\<rparr>"
  by (simp add: finishRequest_def Write_def Header_Add_def Header_Set_def http_Error_def
      newResponseWriter_def WriteHeader_def StatusOK_def Let_def)

text \<open>
  Claim C7. A signed-in user's POST to \<^verbatim>\<open>/api/admin/users\<close>. When the \<^verbatim>\<open>enabled\<close> field
  is empty (taking \<open>b\<close> to be true) or parses as the boolean \<open>b\<close>, and the datastore and the
  encoder work, the response is status 200 with the envelope \<^verbatim>\<open>{"user": {...}}\<close> whose
  \<^verbatim>\<open>enabled\<close> is \<open>b\<close>, and exactly one user with \<open>Enabled = b\<close> is added to the store.
  When the field is not empty and does not parse, the response has status 400, its body
  starts with the message that names the \<^verbatim>\<open>enabled\<close> parameter, and the stored entities
  are what they were.
\<close>

theorem api_post_enabled:
  assumes "user_Current c = Some u"
    and "Path (Url r) = ''/api/admin/users''"
    and "Method r = ''POST''"
  shows \<open>(\<forall>b. (FormValue r ''enabled'' = [] \<and> b = True
             \<or> FormValue r ''enabled'' \<noteq> [] \<and> ParseBool (FormValue r ''enabled'') = Inr b)
            \<and> put_fails c = None \<and> encode_fails c = None \<longrightarrow>
          serve c r =
            Some (\<lparr>resp_status = 200,
                    resp_header = [''Content-Type'' \<mapsto> [''application/json'']],
                    resp_body =
                      [JsonLine (JObject [(''user'',
                         JObject [(''email'', JString (FormValue r ''email'')),
                                  (''enabled'', JBool b),
                                  (''name'', JString (FormValue r ''name''))])])]\<rparr>,
                  c\<lparr>entities := entities c @
                       [(Key ''User'' [] (fresh_id (entities c)) (Some (punchKey c)),
                         UserEntity \<lparr>Email = FormValue r ''email'', Name = FormValue r ''name'',
                                     Enabled = b\<rparr>)],
                    logs := logs c @
                       [LogLine.Debugf ''formvalues. email=%s, name=%s''
                          [ArgString (FormValue r ''email''), ArgString (FormValue r ''name'')]]\<rparr>))
       \<and> (\<forall>err. FormValue r ''enabled'' \<noteq> [] \<and> ParseBool (FormValue r ''enabled'') = Inl err \<longrightarrow>
            (\<exists>resp c'. serve c r = Some (resp, c')
               \<and> resp_status resp = 400
               \<and> hd (resp_body resp) =
                   Text ''Failed to parse the "enabled" parameter as a boolean value\<newline>''
               \<and> entities c' = entities c))\<close>
proof (intro conjI allI impI)
  fix b
  assume a: "(FormValue r ''enabled'' = [] \<and> b = True
             \<or> FormValue r ''enabled'' \<noteq> [] \<and> ParseBool (FormValue r ''enabled'') = Inr b)
            \<and> put_fails c = None \<and> encode_fails c = None"
  then have gv: "getFormBoolValue r ''enabled'' True = (b, None)"
    by (auto simp: getFormBoolValue_enabled)
  have h: "apiAdminUsersHandler c newResponseWriter r =
      Some ((GoMap [(''user'',
                GoMap [(''email'', GoString (FormValue r ''email'')),
                       (''name'', GoString (FormValue r ''name'')),
                       (''enabled'', GoBool b)])], None),
            newResponseWriter,
            c\<lparr>entities := entities c @
                       [(Key ''User'' [] (fresh_id (entities c)) (Some (punchKey c)),
                         UserEntity \<lparr>Email = FormValue r ''email'', Name = FormValue r ''name'',
                                     Enabled = b\<rparr>)],
              logs := logs c @
                       [LogLine.Debugf ''formvalues. email=%s, name=%s''
                          [ArgString (FormValue r ''email''), ArgString (FormValue r ''name'')]]\<rparr>)"
    using assms(3) a
    by (simp add: apiAdminUsersHandler_def gv Let_def Put_incomplete Debugf_def punchKey_def
        NewKey_def)
  show "serve c r =
            Some (\<lparr>resp_status = 200,
                    resp_header = [''Content-Type'' \<mapsto> [''application/json'']],
                    resp_body =
                      [JsonLine (JObject [(''user'',
                         JObject [(''email'', JString (FormValue r ''email'')),
                                  (''enabled'', JBool b),
                                  (''name'', JString (FormValue r ''name''))])])]\<rparr>,
                  c\<lparr>entities := entities c @
                       [(Key ''User'' [] (fresh_id (entities c)) (Some (punchKey c)),
                         UserEntity \<lparr>Email = FormValue r ''email'', Name = FormValue r ''name'',
                                     Enabled = b\<rparr>)],
                    logs := logs c @
                       [LogLine.Debugf ''formvalues. email=%s, name=%s''
                          [ArgString (FormValue r ''email''), ArgString (FormValue r ''name'')]]\<rparr>)"
    using assms(1) a
    by (simp add: serve_api[OF assms(1,2)] apiHandler_ServeHTTP_def h writeJsonResponse_def
        finish_json Let_def)
next
  fix err
  assume a: "FormValue r ''enabled'' \<noteq> [] \<and> ParseBool (FormValue r ''enabled'') = Inl err"
  then have gv: \<open>getFormBoolValue r ''enabled'' True =
      (False, Some \<lparr>Error = err,
                    Message = ''Failed to parse the "enabled" parameter as a boolean value'',
                    Code = 400\<rparr>)\<close>
    by (simp add: getFormBoolValue_enabled)
  have h: \<open>apiAdminUsersHandler c newResponseWriter r =
      Some ((GoNil, Some \<lparr>Error = err,
                    Message = ''Failed to parse the "enabled" parameter as a boolean value'',
                    Code = 400\<rparr>), newResponseWriter, c)\<close>
    using assms(3) by (simp add: apiAdminUsersHandler_def gv)
  show \<open>\<exists>resp c'. serve c r = Some (resp, c')
               \<and> resp_status resp = 400
               \<and> hd (resp_body resp) =
                   Text ''Failed to parse the "enabled" parameter as a boolean value\<newline>''
               \<and> entities c' = entities c\<close>
    using assms(1)
    by (simp add: serve_api[OF assms(1,2)] apiHandler_ServeHTTP_def h writeJsonResponse_def
        handleAppError_def finish_error_then_json finish_error_then_error Errorf_def Let_def
        StatusInternalServerError_def
        split: option.splits)
qed

theorem api_post_enabled_witness:
  \<open>serve signed_in (request ''POST'' ''/api/admin/users'' bob_form) =
     Some (\<lparr>resp_status = 200,
             resp_header = [''Content-Type'' \<mapsto> [''application/json'']],
             resp_body =
               [JsonLine (JObject [(''user'',
                  JObject [(''email'', JString ''bob@example.com''),
                           (''enabled'', JBool True),
                           (''name'', JString ''Bob'')])])]\<rparr>,
           signed_in\<lparr>entities :=
               [(Key ''User'' [] 1 (Some (Key ''Punch'' ''default_punch'' 0 None)), UserEntity bob)],
             logs :=
               [LogLine.Debugf ''formvalues. email=%s, name=%s''
                  [ArgString ''bob@example.com'', ArgString ''Bob'']]\<rparr>)
   \<and> serve signed_in (request ''POST'' ''/api/admin/users'' ((''enabled'', [''false'']) # bob_form)) =
     Some (\<lparr>resp_status = 200,
             resp_header = [''Content-Type'' \<mapsto> [''application/json'']],
             resp_body =
               [JsonLine (JObject [(''user'',
                  JObject [(''email'', JString ''bob@example.com''),
                           (''enabled'', JBool False),
                           (''name'', JString ''Bob'')])])]\<rparr>,
           signed_in\<lparr>entities :=
               [(Key ''User'' [] 1 (Some (Key ''Punch'' ''default_punch'' 0 None)),
                 UserEntity (bob\<lparr>Enabled := False\<rparr>))],
             logs :=
               [LogLine.Debugf ''formvalues. email=%s, name=%s''
                  [ArgString ''bob@example.com'', ArgString ''Bob'']]\<rparr>)
   \<and> (\<exists>resp c'.
         serve signed_in
           (request ''POST'' ''/api/admin/users'' ((''enabled'', [''notabool'']) # bob_form)) =
           Some (resp, c')
         \<and> resp_status resp = 400
         \<and> hd (resp_body resp) =
             Text ''Failed to parse the "enabled" parameter as a boolean value\<newline>''
         \<and> entities c' = [])\<close>
proof -
  let ?r1 = "request ''POST'' ''/api/admin/users'' bob_form"
  let ?r2 = "request ''POST'' ''/api/admin/users'' ((''enabled'', [''false'']) # bob_form)"
  let ?r3 = "request ''POST'' ''/api/admin/users'' ((''enabled'', [''notabool'']) # bob_form)"
  have u: "user_Current signed_in = Some alice"
    and ok: "put_fails signed_in = None" "encode_fails signed_in = None"
    and es: "entities signed_in = []" and lg: "logs signed_in = []"
    and pk: "punchKey signed_in = Key ''Punch'' ''default_punch'' 0 None"
    by (simp_all add: signed_in_def signed_out_def punchKey_def NewKey_def)
  have fv: "FormValue ?r1 ''enabled'' = []" "FormValue ?r2 ''enabled'' = ''false''"
    "FormValue ?r3 ''enabled'' = ''notabool''"
    "FormValue ?r1 ''email'' = ''bob@example.com''" "FormValue ?r1 ''name'' = ''Bob''"
    "FormValue ?r2 ''email'' = ''bob@example.com''" "FormValue ?r2 ''name'' = ''Bob''"
    by (simp_all add: FormValue_def request_def bob_form_def)
  have pb: "ParseBool ''false'' = Inr False"
    "ParseBool ''notabool'' = Inl (NumError ''ParseBool'' ''notabool'' ErrSyntax)"
    by (simp_all add: ParseBool_def)
  have s1: "serve signed_in ?r1 = Some (\<lparr>resp_status = 200,
             resp_header = [''Content-Type'' \<mapsto> [''application/json'']],
             resp_body =
               [JsonLine (JObject [(''user'',
                  JObject [(''email'', JString ''bob@example.com''),
                           (''enabled'', JBool True),
                           (''name'', JString ''Bob'')])])]\<rparr>,
           signed_in\<lparr>entities :=
               [(Key ''User'' [] 1 (Some (Key ''Punch'' ''default_punch'' 0 None)), UserEntity bob)],
             logs :=
               [LogLine.Debugf ''formvalues. email=%s, name=%s''
                  [ArgString ''bob@example.com'', ArgString ''Bob'']]\<rparr>)"
    using api_post_enabled[where c = signed_in and u = alice and r = ?r1,
        THEN conjunct1, rule_format, of True] u ok
    by (simp add: fv es lg pk fresh_id_def bob_def) (simp add: request_def)
  have s2: "serve signed_in ?r2 = Some (\<lparr>resp_status = 200,
             resp_header = [''Content-Type'' \<mapsto> [''application/json'']],
             resp_body =
               [JsonLine (JObject [(''user'',
                  JObject [(''email'', JString ''bob@example.com''),
                           (''enabled'', JBool False),
                           (''name'', JString ''Bob'')])])]\<rparr>,
           signed_in\<lparr>entities :=
               [(Key ''User'' [] 1 (Some (Key ''Punch'' ''default_punch'' 0 None)),
                 UserEntity (bob\<lparr>Enabled := False\<rparr>))],
             logs :=
               [LogLine.Debugf ''formvalues. email=%s, name=%s''
                  [ArgString ''bob@example.com'', ArgString ''Bob'']]\<rparr>)"
    using api_post_enabled[where c = signed_in and u = alice and r = ?r2,
        THEN conjunct1, rule_format, of False] u ok
    by (simp add: fv pb es lg pk fresh_id_def bob_def) (simp add: request_def)
  have s3: \<open>\<exists>resp c'. serve signed_in ?r3 = Some (resp, c')
         \<and> resp_status resp = 400
         \<and> hd (resp_body resp) =
             Text ''Failed to parse the "enabled" parameter as a boolean value\<newline>''
         \<and> entities c' = []\<close>
    using api_post_enabled[where c = signed_in and u = alice and r = ?r3,
        THEN conjunct2, rule_format, of "NumError ''ParseBool'' ''notabool'' ErrSyntax"] u
    by (simp add: fv pb es) (simp add: request_def)
  from s1 s2 s3 show ?thesis by blast
qed

section \<open>The parent key of user records\<close>

lemma root_unique:
  "has_ancestor a k \<Longrightarrow> has_ancestor b k \<Longrightarrow> key_parent a = None \<Longrightarrow> key_parent b = None \<Longrightarrow> a = b"
proof (induction a k rule: has_ancestor.induct)
  case (1 a kind sid iid parent)
  show ?case
  proof (cases parent)
    case None
    with 1 show ?thesis by simp
  next
    case (Some p)
    with 1 show ?thesis by auto
  qed
qed

lemma run_usersQuery:
  "run_query (usersQuery c) es =
     sort_key (index_key ''Name'')
       (filter (\<lambda>ke. property ''Name'' (snd ke) \<noteq> None)
         (filter (\<lambda>ke. key_kind (fst ke) = ''User'' \<and> has_ancestor (punchKey c) (fst ke)) es))"
  by (simp add: run_query_def usersQuery_def limited_def ordered_def selected_def
      Order_def Ancestor_def NewQuery_def)

lemma jsonUsers_loop:
  "foldl (\<lambda>js user. append_slice js (jsonUser user)) (GoSlice vs) users =
     GoSlice (vs @ map jsonUser users)"
  by (induction users arbitrary: vs) simp_all

lemma jsonUsers_value:
  "foldl (\<lambda>js user. append_slice js (jsonUser user)) GoNilSlice users =
     (if users = [] then GoNilSlice else GoSlice (map jsonUser users))"
  by (cases users) (simp_all add: jsonUsers_loop)

lemma load_all_User: "load_all loadUser kes = Some us \<Longrightarrow> map snd kes = map UserEntity us"
proof (induction kes arbitrary: us)
  case Nil
  then show ?case by simp
next
  case (Cons ke kes)
  then show ?case
    by (cases "snd ke") (auto split: option.splits)
qed

lemma usersQuery_eq:
  "usersQuery c =
     \<lparr>q_kind = ''User'', q_ancestor = Some (Key ''Punch'' ''default_punch'' 0 None),
      q_order = Some ''Name'', q_limit = None\<rparr>"
  by (simp add: usersQuery_def Order_def Ancestor_def NewQuery_def punchKey_def NewKey_def)

lemma run_usersQuery_set:
  "set (run_query (usersQuery c) es) =
     {ke \<in> set es. key_kind (fst ke) = ''User''
        \<and> has_ancestor (Key ''Punch'' ''default_punch'' 0 None) (fst ke)
        \<and> property ''Name'' (snd ke) \<noteq> None}"
  by (auto simp: run_usersQuery punchKey_def NewKey_def)

text \<open>
  Claim C10. The punch key is (kind \<^verbatim>\<open>Punch\<close>, name \<^verbatim>\<open>default_punch\<close>), the user key
  (kind \<^verbatim>\<open>User\<close>, name \<^verbatim>\<open>default_user\<close>), and they differ. On GET the admin user handler
  answers from the fetch of the query of kind \<^verbatim>\<open>User\<close> whose ancestor is the punch key,
  ordered by \<^verbatim>\<open>Name\<close>. Whenever that fetch succeeds, every user it lists is stored under
  a key of kind \<^verbatim>\<open>User\<close> below the punch key and not below the user key, and every user
  stored so is listed. On POST, when the datastore accepts writes, the handler either
  stores nothing (a malformed \<^verbatim>\<open>enabled\<close> field) or stores exactly one user, under a
  generated key of kind \<^verbatim>\<open>User\<close> whose parent is the punch key, and every successful
  fetch of the list query afterwards lists that user: inserts and list queries agree on
  the punch key, and neither uses the user key.
\<close>

theorem users_under_punchKey:
  \<open>punchKey c = Key ''Punch'' ''default_punch'' 0 None
   \<and> userKey c = Key ''User'' ''default_user'' 0 None
   \<and> punchKey c \<noteq> userKey c
   \<and> (Method r = ''GET'' \<longrightarrow>
        apiAdminUsersHandler c w r =
          (case GetAll loadUser
                  \<lparr>q_kind = ''User'', q_ancestor = Some (Key ''Punch'' ''default_punch'' 0 None),
                   q_order = Some ''Name'', q_limit = None\<rparr> c [] of
             Inl err \<Rightarrow>
               Some ((GoNil, Some \<lparr>Error = err,
                                    Message = ''Failed to fetch users data from the datastore'',
                                    Code = 500\<rparr>), w, c)
           | Inr users \<Rightarrow>
               Some ((GoMap [(''users'',
                        if users = [] then GoNilSlice else GoSlice (map jsonUser users))],
                      None), w, c)))
   \<and> (\<forall>users.
         GetAll loadUser
           \<lparr>q_kind = ''User'', q_ancestor = Some (Key ''Punch'' ''default_punch'' 0 None),
            q_order = Some ''Name'', q_limit = None\<rparr> c [] = Inr users \<longrightarrow>
         (\<forall>user\<in>set users. \<exists>k. (k, UserEntity user) \<in> set (entities c)
             \<and> key_kind k = ''User''
             \<and> has_ancestor (Key ''Punch'' ''default_punch'' 0 None) k
             \<and> \<not> has_ancestor (Key ''User'' ''default_user'' 0 None) k)
         \<and> (\<forall>k user. (k, UserEntity user) \<in> set (entities c) \<and> key_kind k = ''User''
               \<and> has_ancestor (Key ''Punch'' ''default_punch'' 0 None) k \<longrightarrow>
             user \<in> set users))
   \<and> (Method r = ''POST'' \<and> put_fails c = None \<longrightarrow>
        (case apiAdminUsersHandler c w r of
           Some ((j, None), w', c') \<Rightarrow>
             (\<exists>user. entities c' = entities c @
                [(Key ''User'' [] (fresh_id (entities c))
                    (Some (Key ''Punch'' ''default_punch'' 0 None)), UserEntity user)]
              \<and> (\<forall>users.
                    GetAll loadUser
                      \<lparr>q_kind = ''User'',
                       q_ancestor = Some (Key ''Punch'' ''default_punch'' 0 None),
                       q_order = Some ''Name'', q_limit = None\<rparr> c' [] = Inr users \<longrightarrow>
                    user \<in> set users))
         | Some ((j, Some e), w', c') \<Rightarrow> entities c' = entities c
         | None \<Rightarrow> False))\<close>
  (is "?pk \<and> ?uk \<and> ?ne \<and> ?get \<and> ?listed \<and> ?post")
proof -
  have pk: ?pk by (simp add: punchKey_def NewKey_def)
  have uk: ?uk by (simp add: userKey_def NewKey_def)
  have ne: ?ne by (simp add: pk uk)
  have get: ?get
    by (simp add: apiAdminUsersHandler_def Let_def jsonUsers_value usersQuery_eq
        StatusInternalServerError_def split: sum.splits)
  have listed_gen: "\<And>c users.
      GetAll loadUser (usersQuery c) c [] = Inr users \<Longrightarrow>
      (\<forall>user\<in>set users. \<exists>k. (k, UserEntity user) \<in> set (entities c)
             \<and> key_kind k = ''User''
             \<and> has_ancestor (Key ''Punch'' ''default_punch'' 0 None) k
             \<and> \<not> has_ancestor (Key ''User'' ''default_user'' 0 None) k)
      \<and> (\<forall>k user. (k, UserEntity user) \<in> set (entities c) \<and> key_kind k = ''User''
               \<and> has_ancestor (Key ''Punch'' ''default_punch'' 0 None) k \<longrightarrow>
             user \<in> set users)"
  proof -
    fix c :: Context and users
    assume fetch: "GetAll loadUser (usersQuery c) c [] = Inr users"
    then have "load_all loadUser (run_query (usersQuery c) (entities c)) = Some users"
      by (auto simp: GetAll_def split: option.splits)
    then have eq: "map snd (run_query (usersQuery c) (entities c)) = map UserEntity users"
      by (rule load_all_User)
    have mem: "\<And>user. user \<in> set users \<longleftrightarrow>
        UserEntity user \<in> snd ` set (run_query (usersQuery c) (entities c))"
    proof -
      fix user
      have "UserEntity user \<in> set (map UserEntity users) \<longleftrightarrow>
          UserEntity user \<in> snd ` set (run_query (usersQuery c) (entities c))"
        using eq by (metis set_map)
      then show "user \<in> set users \<longleftrightarrow>
          UserEntity user \<in> snd ` set (run_query (usersQuery c) (entities c))"
        by auto
    qed
    show "(\<forall>user\<in>set users. \<exists>k. (k, UserEntity user) \<in> set (entities c)
             \<and> key_kind k = ''User''
             \<and> has_ancestor (Key ''Punch'' ''default_punch'' 0 None) k
             \<and> \<not> has_ancestor (Key ''User'' ''default_user'' 0 None) k)
      \<and> (\<forall>k user. (k, UserEntity user) \<in> set (entities c) \<and> key_kind k = ''User''
               \<and> has_ancestor (Key ''Punch'' ''default_punch'' 0 None) k \<longrightarrow>
             user \<in> set users)"
    proof (intro conjI ballI allI impI)
      fix user assume "user \<in> set users"
      then obtain k where k: "(k, UserEntity user) \<in> set (run_query (usersQuery c) (entities c))"
        using mem by force
      then have st: "(k, UserEntity user) \<in> set (entities c)" "key_kind k = ''User''"
        and anc: "has_ancestor (Key ''Punch'' ''default_punch'' 0 None) k"
        by (auto simp: run_usersQuery_set)
      have "\<not> has_ancestor (Key ''User'' ''default_user'' 0 None) k"
      proof
        assume "has_ancestor (Key ''User'' ''default_user'' 0 None) k"
        from root_unique[OF anc this] show False by simp
      qed
      with st anc show "\<exists>k. (k, UserEntity user) \<in> set (entities c)
             \<and> key_kind k = ''User''
             \<and> has_ancestor (Key ''Punch'' ''default_punch'' 0 None) k
             \<and> \<not> has_ancestor (Key ''User'' ''default_user'' 0 None) k"
        by blast
    next
      fix k user
      assume "(k, UserEntity user) \<in> set (entities c) \<and> key_kind k = ''User''
               \<and> has_ancestor (Key ''Punch'' ''default_punch'' 0 None) k"
      then have "(k, UserEntity user) \<in> set (run_query (usersQuery c) (entities c))"
        by (simp add: run_usersQuery_set)
      then show "user \<in> set users" using mem by force
    qed
  qed
  have listed: ?listed
    using listed_gen[of c] by (simp add: usersQuery_eq)
  have post: ?post
  proof
    assume a: "Method r = ''POST'' \<and> put_fails c = None"
    show "case apiAdminUsersHandler c w r of
           Some ((j, None), w', c') \<Rightarrow>
             (\<exists>user. entities c' = entities c @
                [(Key ''User'' [] (fresh_id (entities c))
                    (Some (Key ''Punch'' ''default_punch'' 0 None)), UserEntity user)]
              \<and> (\<forall>users.
                    GetAll loadUser
                      \<lparr>q_kind = ''User'',
                       q_ancestor = Some (Key ''Punch'' ''default_punch'' 0 None),
                       q_order = Some ''Name'', q_limit = None\<rparr> c' [] = Inr users \<longrightarrow>
                    user \<in> set users))
         | Some ((j, Some e), w', c') \<Rightarrow> entities c' = entities c
         | None \<Rightarrow> False"
    proof (cases "getFormBoolValue r ''enabled'' True")
      case (Pair b eo)
      show ?thesis
      proof (cases eo)
        case (Some e)
        with Pair a show ?thesis by (simp add: apiAdminUsersHandler_def)
      next
        case None
        define user where "user = \<lparr>Email = FormValue r ''email'', Name = FormValue r ''name'', Enabled = b\<rparr>"
        define c' where "c' = c\<lparr>logs := logs c @
              [LogLine.Debugf ''formvalues. email=%s, name=%s''
                 [ArgString (FormValue r ''email''), ArgString (FormValue r ''name'')]],
             entities := entities c @
                [(Key ''User'' [] (fresh_id (entities c))
                    (Some (Key ''Punch'' ''default_punch'' 0 None)), UserEntity user)]\<rparr>"
        have h: "apiAdminUsersHandler c w r =
            Some ((GoMap [(''user'',
                     GoMap [(''email'', GoString (FormValue r ''email'')),
                            (''name'', GoString (FormValue r ''name'')),
                            (''enabled'', GoBool b)])], None), w, c')"
          using a Pair None
          by (simp add: apiAdminUsersHandler_def Let_def Put_incomplete Debugf_def punchKey_def
              NewKey_def c'_def user_def)
        have ent: "entities c' = entities c @
                [(Key ''User'' [] (fresh_id (entities c))
                    (Some (Key ''Punch'' ''default_punch'' 0 None)), UserEntity user)]"
          by (simp add: c'_def)
        have "\<forall>users. GetAll loadUser (usersQuery c') c' [] = Inr users \<longrightarrow> user \<in> set users"
        proof (intro allI impI)
          fix users assume "GetAll loadUser (usersQuery c') c' [] = Inr users"
          from listed_gen[OF this, THEN conjunct2, rule_format,
              of "Key ''User'' [] (fresh_id (entities c)) (Some (Key ''Punch'' ''default_punch'' 0 None))" user]
          show "user \<in> set users" by (simp add: ent)
        qed
        then show ?thesis using ent by (simp add: h usersQuery_eq)
      qed
    qed
  qed
  from pk uk ne get listed post show ?thesis by blast
qed


theorem users_under_punchKey_witness:
  "GetAll loadUser
     \<lparr>q_kind = ''User'', q_ancestor = Some (Key ''Punch'' ''default_punch'' 0 None),
      q_order = Some ''Name'', q_limit = None\<rparr> two_users [] = Inr [bob, carol]
   \<and> apiAdminUsersHandler two_users newResponseWriter (request ''GET'' ''/api/admin/users'' []) =
       Some ((GoMap [(''users'', GoSlice [jsonUser bob, jsonUser carol])], None),
             newResponseWriter, two_users)
   \<and> (\<exists>j w' c'.
         apiAdminUsersHandler two_users newResponseWriter
           (request ''POST'' ''/api/admin/users'' bob_form) = Some ((j, None), w', c')
         \<and> entities c' = entities two_users @
             [(Key ''User'' [] 4 (Some (Key ''Punch'' ''default_punch'' 0 None)), UserEntity bob)]
         \<and> GetAll loadUser
              \<lparr>q_kind = ''User'', q_ancestor = Some (Key ''Punch'' ''default_punch'' 0 None),
               q_order = Some ''Name'', q_limit = None\<rparr> c' [] = Inr [bob, bob, carol])"
proof -
  let ?get = "request ''GET'' ''/api/admin/users'' []"
  let ?post = "request ''POST'' ''/api/admin/users'' bob_form"
  let ?q = "\<lparr>q_kind = ''User'', q_ancestor = Some (Key ''Punch'' ''default_punch'' 0 None),
             q_order = Some ''Name'', q_limit = None\<rparr>"
  have fetch: "GetAll loadUser ?q two_users [] = Inr [bob, carol]"
    by (simp add: GetAll_def run_query_def limited_def ordered_def selected_def two_users_def
        signed_in_def signed_out_def index_key_def bob_def carol_def dave_def)
  have g: "apiAdminUsersHandler two_users newResponseWriter ?get =
       Some ((GoMap [(''users'', GoSlice [jsonUser bob, jsonUser carol])], None),
             newResponseWriter, two_users)"
    using users_under_punchKey[where c = two_users and r = ?get and w = newResponseWriter,
        THEN conjunct2, THEN conjunct2, THEN conjunct2, THEN conjunct1]
    by (simp add: fetch request_def)
  have post: "Method ?post = ''POST'' \<and> put_fails two_users = None"
    by (simp add: request_def two_users_def signed_in_def signed_out_def)
  have fresh: "fresh_id (entities two_users) = 4"
    by (simp add: fresh_id_def two_users_def)
  have h: "apiAdminUsersHandler two_users newResponseWriter ?post =
      Some ((GoMap [(''user'', GoMap [(''email'', GoString ''bob@example.com''),
                                      (''name'', GoString ''Bob''),
                                      (''enabled'', GoBool True)])], None),
            newResponseWriter,
            two_users\<lparr>entities := entities two_users @
                 [(Key ''User'' [] 4 (Some (Key ''Punch'' ''default_punch'' 0 None)), UserEntity bob)],
               logs := logs two_users @
                 [LogLine.Debugf ''formvalues. email=%s, name=%s''
                    [ArgString ''bob@example.com'', ArgString ''Bob'']]\<rparr>)"
    using post
    by (simp add: apiAdminUsersHandler_def getFormBoolValue_enabled Put_incomplete fresh Let_def
        Debugf_def punchKey_def NewKey_def bob_def)
      (simp add: FormValue_def request_def bob_form_def)
  have fetch': "GetAll loadUser ?q
      (two_users\<lparr>entities := entities two_users @
                 [(Key ''User'' [] 4 (Some (Key ''Punch'' ''default_punch'' 0 None)), UserEntity bob)],
               logs := logs two_users @
                 [LogLine.Debugf ''formvalues. email=%s, name=%s''
                    [ArgString ''bob@example.com'', ArgString ''Bob'']]\<rparr>) [] = Inr [bob, bob, carol]"
    by (simp add: GetAll_def run_query_def limited_def ordered_def selected_def two_users_def
        signed_in_def signed_out_def index_key_def bob_def carol_def dave_def)
  have listed: "bob \<in> set [bob, bob, carol]"
    using users_under_punchKey[where c = two_users and r = ?post and w = newResponseWriter,
        THEN conjunct2, THEN conjunct2, THEN conjunct2, THEN conjunct2, THEN conjunct2,
        THEN mp, OF post]
    by (simp add: h)
  from fetch g h fetch' listed show ?thesis by simp
qed

section \<open>Errors at the gates\<close>

text \<open>
  When the wrapped handler of an HTML gate returns an error, the gate logs the cause and
  writes the message and the status after whatever the handler wrote.
\<close>

lemma appHandler_writes_error:
  assumes "user_Current c = Some u" and "fn c w r = Some (Some e, w', c')"
  shows "appHandler_ServeHTTP fn c w r =
           Some (http_Error w' (Message e) (Code e), Errorf c' ''%v'' [ArgError (Error e)])"
    and "hello_appHandler_ServeHTTP fn c w r =
           Some (http_Error w' (Message e) (Code e), Errorf c' ''%v'' [ArgError (Error e)])"
  using assms
  by (simp_all add: appHandler_ServeHTTP_def hello_appHandler_ServeHTTP_def handleAppError_def
      Let_def)

text \<open>
  The JSON gate does the same and then goes on to encode the handler's JSON value, which
  is nil when the handler failed.
\<close>

lemma apiHandler_writes_error_and_json:
  assumes "user_Current c = Some u" and "fn c w r = Some ((j, Some e), w', c')"
    and "encode_fails c' = None"
  shows "apiHandler_ServeHTTP fn c w r =
           Some (Write (Header_Add (http_Error w' (Message e) (Code e))
                          ''Content-Type'' ''application/json'') [JsonLine (marshal j)],
                 Errorf c' ''%v'' [ArgError (Error e)])"
  using assms
  by (simp add: apiHandler_ServeHTTP_def handleAppError_def writeJsonResponse_def Errorf_def
      Let_def)

text \<open>
  Claim C1 fails at the JSON gate. A signed-in user's PUT to \<^verbatim>\<open>/api/admin/users\<close> makes
  the handler return the error of status 400 with the message
  \<^verbatim>\<open>Unsupported http method\<close>. The gate logs the cause and writes status and message, but
  the response body then continues with the JSON document \<^verbatim>\<open>null\<close>: the body is not the
  message alone.
\<close>

theorem api_error_followed_by_null:
  "serve signed_in (request ''PUT'' ''/api/admin/users'' []) =
     Some (\<lparr>resp_status = 400,
             resp_header = [''Content-Type'' \<mapsto> [''text/plain; charset=utf-8'']],
             resp_body = [Text ''Unsupported http method\<newline>'', JsonLine JNull]\<rparr>,
           signed_in\<lparr>logs :=
             [LogLine.Errorf ''%v'' [ArgError (errorString ''Unsupported http method'')]]\<rparr>)"
  by (simp add: serve_def mux_api Handler_ServeHTTP_def apiHandler_ServeHTTP_def
      apiAdminUsersHandler_def handleAppError_def writeJsonResponse_def finish_error_then_json
      signed_in_def signed_out_def request_def Errorf_def errors_New_def StatusBadRequest_def
      Let_def)

section \<open>Listing users\<close>

lemma sorted_Name:
  assumes "sorted (map (index_key ''Name'') kes)" and "map snd kes = map UserEntity us"
  shows "sorted (map Name us)"
proof -
  have "map (index_key ''Name'') kes =
          map (\<lambda>e. case property ''Name'' e of None \<Rightarrow> (0, 0, []) | Some v \<Rightarrow> rank v) (map snd kes)"
    by (simp add: index_key_def comp_def)
  also have "\<dots> = map (\<lambda>u. (3::nat, 0::int, Name u)) us"
    by (simp add: assms(2) comp_def)
  finally have "sorted (map (\<lambda>u. (3::nat, 0::int, Name u)) us)" using assms(1) by simp
  then show ?thesis
    by (simp add: sorted_map sorted_wrt_iff_nth_less less_eq_prod_def)
qed

lemma api_get_users:
  assumes "user_Current c = Some u"
    and "Path (Url r) = ''/api/admin/users''"
    and "Method r = ''GET''"
    and "GetAll loadUser (usersQuery c) c [] = Inr users"
    and "encode_fails c = None"
  shows "serve c r =
           Some (\<lparr>resp_status = 200,
                   resp_header = [''Content-Type'' \<mapsto> [''application/json'']],
                   resp_body =
                     [JsonLine (JObject [(''users'',
                        if users = [] then JNull
                        else JArray (map (\<lambda>user. JObject [(''email'', JString (Email user)),
                                                            (''enabled'', JBool (Enabled user)),
                                                            (''name'', JString (Name user))])
                                     users))])]\<rparr>, c)"
    and "sorted (map Name users)"
    and "map UserEntity users = map snd (run_query (usersQuery c) (entities c))"
proof -
  have h: "apiAdminUsersHandler c newResponseWriter r =
      Some ((GoMap [(''users'', if users = [] then GoNilSlice else GoSlice (map jsonUser users))],
             None), newResponseWriter, c)"
    using assms(3,4) by (simp add: apiAdminUsersHandler_def Let_def jsonUsers_value)
  have m: "marshal (GoMap [(''users'', if users = [] then GoNilSlice else GoSlice (map jsonUser users))]) =
      JObject [(''users'',
                        if users = [] then JNull
                        else JArray (map (\<lambda>user. JObject [(''email'', JString (Email user)),
                                                            (''enabled'', JBool (Enabled user)),
                                                            (''name'', JString (Name user))])
                                     users))]"
    by (simp add: marshal_jsonUser comp_def)
  show "serve c r =
           Some (\<lparr>resp_status = 200,
                   resp_header = [''Content-Type'' \<mapsto> [''application/json'']],
                   resp_body =
                     [JsonLine (JObject [(''users'',
                        if users = [] then JNull
                        else JArray (map (\<lambda>user. JObject [(''email'', JString (Email user)),
                                                            (''enabled'', JBool (Enabled user)),
                                                            (''name'', JString (Name user))])
                                     users))])]\<rparr>, c)"
    using assms(1,5)
    by (simp add: serve_api[OF assms(1,2)] apiHandler_ServeHTTP_def h writeJsonResponse_def
        finish_json Let_def m del: marshal.simps)
  from assms(4) have ld: "load_all loadUser (run_query (usersQuery c) (entities c)) = Some users"
    by (auto simp: GetAll_def split: option.splits)
  then show eq: "map UserEntity users = map snd (run_query (usersQuery c) (entities c))"
    by (simp add: load_all_User)
  have "sorted (map (index_key ''Name'') (run_query (usersQuery c) (entities c)))"
    by (simp add: run_usersQuery)
  then show "sorted (map Name users)"
    using eq[symmetric] by (rule sorted_Name)
qed

text \<open>
  Claim C8 fails on an empty store. A signed-in user's GET of \<^verbatim>\<open>/api/admin/users\<close> with
  no user stored is answered with status 200 and the envelope \<^verbatim>\<open>{"users": null}\<close>: the
  slice of projected users is never allocated, and a nil slice is encoded as \<^verbatim>\<open>null\<close>, not
  as an empty array. (With at least one user stored the envelope holds the array of the
  three-field projections in ascending order of name: \<open>api_get_users\<close>.)
\<close>

theorem api_get_no_users_null:
  "serve signed_in (request ''GET'' ''/api/admin/users'' []) =
     Some (\<lparr>resp_status = 200,
             resp_header = [''Content-Type'' \<mapsto> [''application/json'']],
             resp_body = [JsonLine (JObject [(''users'', JNull)])]\<rparr>, signed_in)"
  by (simp add: serve_def mux_api Handler_ServeHTTP_def apiHandler_ServeHTTP_def
      apiAdminUsersHandler_def writeJsonResponse_def finish_json GetAll_def run_usersQuery
      signed_in_def signed_out_def request_def Let_def)

end
